theory Spec2Isabelle
  imports Complex_Main "HOL-Library.Word"
begin

section \<open>The C++ values the program handles\<close>

text \<open>
  \<open>HRESULT\<close> is the Windows \<open>long\<close>: a signed 32-bit integer. \<open>S_OK\<close> is 0, and
  every check in \<open>main.cpp\<close> is \<open>result != S_OK\<close>.
\<close>

type_synonym HRESULT = "32 word"

definition S_OK :: HRESULT where
  "S_OK = 0"

text \<open>
  \<open>std::to_string(long)\<close> prints the signed decimal value (as \<open>%ld\<close> does).
\<close>

definition digit_char :: "nat \<Rightarrow> char" where
  "digit_char d = ''0123456789'' ! d"

fun nat_to_string :: "nat \<Rightarrow> string" where
  "nat_to_string n =
     (if n < 10 then [digit_char n]
      else nat_to_string (n div 10) @ [digit_char (n mod 10)])"

declare nat_to_string.simps [simp del]

definition to_string :: "int \<Rightarrow> string" where
  "to_string i = (if i < 0 then CHR ''-'' # nat_to_string (nat (- i)) else nat_to_string (nat i))"

text \<open>
  A \<open>const char*\<close> read as a string is the characters up to the first NUL.
  \<open>std::string::c_str\<close> points at the characters of the string followed by a NUL, so a
  reader of the pointer sees the string up to its first embedded NUL.
\<close>

definition NUL :: char where
  "NUL = CHR 0x00"

definition c_str :: "string \<Rightarrow> string" where
  "c_str s = takeWhile (\<lambda>c. c \<noteq> NUL) s"

text \<open>
  \<open>"literal" + n\<close> with \<open>n\<close> an integer is pointer arithmetic on the array of the
  literal (its characters and the closing NUL). A \<open>std::string\<close> built from the
  resulting pointer reads the literal from offset \<open>n\<close>. Outside the array, and at the
  position one past its end, the read is undefined behaviour: \<open>None\<close>.
  The literals of \<open>main.cpp\<close> hold no NUL, so the string read is the rest of the literal.
\<close>

definition literal_plus :: "string \<Rightarrow> int \<Rightarrow> string option" where
  "literal_plus lit n =
     (if 0 \<le> n \<and> n \<le> int (length lit) then Some (drop (nat n) lit) else None)"

subsection \<open>Direct3dException\<close>

record Direct3dException =
  m_errorMessage :: string

definition Direct3dException_ctor :: "string \<Rightarrow> Direct3dException" where
  "Direct3dException_ctor errorMessage = \<lparr>m_errorMessage = errorMessage\<rparr>"

definition what :: "Direct3dException \<Rightarrow> string" where
  "what ex = c_str (m_errorMessage ex)"

text \<open>
  A run of an initializer ends normally, by a thrown \<open>Direct3dException\<close>, or in
  undefined behaviour (a null \<open>ComPtr\<close> dereferenced, a pointer moved out of its array).
\<close>

datatype error = Thrown Direct3dException | UndefinedBehaviour

subsection \<open>Native objects and descriptors\<close>

text \<open>
  A native object (a window, a COM object) is known by its address. A \<open>ComPtr\<close> is
  \<open>None\<close> when null. \<open>HWND\<close> is the raw value read from the \<open>SDL_SysWMinfo\<close>
  structure, whatever it holds.
\<close>

type_synonym handle = nat
type_synonym ComPtr = "handle option"
type_synonym HWND = nat

record SDL_Event =
  ev_type :: "32 word"

definition SDL_QUIT :: "32 word" where
  "SDL_QUIT = 0x100"

text \<open>
  The named constants of the SDL and Direct3D headers that the program passes on. A set of
  flags joined by \<open>|\<close> is the list of its flags.
\<close>

datatype SDL_INIT_FLAG = SDL_INIT_VIDEO | SDL_INIT_EVENTS | SDL_INIT_AUDIO
datatype SDL_WINDOWPOS = SDL_WINDOWPOS_CENTERED
datatype D3D_DRIVER_TYPE = D3D_DRIVER_TYPE_HARDWARE
datatype D3D11_CREATE_DEVICE_FLAG = D3D11_CREATE_DEVICE_DEBUG | D3D11_CREATE_DEVICE_SINGLETHREADED
datatype DXGI_FORMAT = DXGI_FORMAT_R8G8B8A8_UNORM | DXGI_FORMAT_D24_UNORM_S8_UINT
datatype DXGI_MODE_SCANLINE_ORDER = DXGI_MODE_SCANLINE_ORDER_UNSPECIFIED
datatype DXGI_MODE_SCALING = DXGI_MODE_SCALING_UNSPECIFIED
datatype DXGI_USAGE = DXGI_USAGE_RENDER_TARGET_OUTPUT
datatype DXGI_SWAP_EFFECT = DXGI_SWAP_EFFECT_DISCARD
datatype D3D11_USAGE = D3D11_USAGE_DEFAULT
datatype D3D11_BIND_FLAG = D3D11_BIND_DEPTH_STENCIL
datatype D3D11_CLEAR_FLAG = D3D11_CLEAR_DEPTH | D3D11_CLEAR_STENCIL
datatype Color = CornflowerBlue

record DXGI_SAMPLE_DESC =
  Count :: nat
  Quality :: nat

record DXGI_SWAP_CHAIN_DESC =
  BufferDesc_Width :: nat
  BufferDesc_Height :: nat
  BufferDesc_RefreshRate_Numerator :: nat
  BufferDesc_RefreshRate_Denominator :: nat
  BufferDesc_Format :: DXGI_FORMAT
  BufferDesc_ScanlineOrdering :: DXGI_MODE_SCANLINE_ORDER
  BufferDesc_Scaling :: DXGI_MODE_SCALING
  sd_SampleDesc :: DXGI_SAMPLE_DESC
  BufferUsage :: DXGI_USAGE
  BufferCount :: nat
  OutputWindow :: HWND
  Windowed :: bool
  SwapEffect :: DXGI_SWAP_EFFECT
  sd_Flags :: nat

record D3D11_TEXTURE2D_DESC =
  tex_Width :: nat
  tex_Height :: nat
  MipLevels :: nat
  ArraySize :: nat
  tex_Format :: DXGI_FORMAT
  tex_SampleDesc :: DXGI_SAMPLE_DESC
  Usage :: D3D11_USAGE
  BindFlags :: "D3D11_BIND_FLAG list"
  CPUAccessFlags :: nat
  MiscFlags :: nat

record D3D11_VIEWPORT =
  TopLeftX :: real
  TopLeftY :: real
  vp_Width :: real
  vp_Height :: real
  MinDepth :: real
  MaxDepth :: real

subsection \<open>The outside world\<close>

text \<open>
  Every call into SDL or Direct3D is recorded, in order, with the arguments the program
  chose. The answers of the outside world are the fields of \<open>env\<close>: the status each
  native call returns and the object it hands out; the program stores the object only
  when the status is \<open>S_OK\<close>, and it is then not null.
  \<open>SDL_GetWindowWMInfo_r\<close> is what the window-information query returns, and
  \<open>wm_window\<close> is what the field \<open>info.win.window\<close> holds after it: the handle of the
  window when the query succeeded, anything when it failed (the structure is not
  initialized).
  \<open>SDL_PollEvent_r env i\<close> is the event the \<open>i\<close>-th poll yields, \<open>None\<close> when the queue
  is empty.
\<close>

datatype call =
    Call_SDL_Init "SDL_INIT_FLAG list"
  | Call_SDL_Log string
  | Call_SDL_CreateWindow string SDL_WINDOWPOS SDL_WINDOWPOS nat nat nat
  | Call_SDL_GetWindowWMInfo handle
  | Call_D3D11CreateDevice D3D_DRIVER_TYPE "D3D11_CREATE_DEVICE_FLAG list"
  | Call_As_IDXGIDevice handle
  | Call_GetParent_IDXGIAdapter handle
  | Call_GetParent_IDXGIFactory handle
  | Call_CreateSwapChain handle handle DXGI_SWAP_CHAIN_DESC
  | Call_GetBuffer handle nat
  | Call_CreateRenderTargetView handle handle
  | Call_CreateTexture2D handle D3D11_TEXTURE2D_DESC
  | Call_CreateDepthStencilView handle handle
  | Call_OMSetRenderTargets handle nat "ComPtr list" ComPtr
  | Call_RSSetViewports handle nat "D3D11_VIEWPORT list"
  | Call_SDL_PollEvent
  | Call_ClearRenderTargetView handle ComPtr Color
  | Call_ClearDepthStencilView handle ComPtr "D3D11_CLEAR_FLAG list" real nat
  | Call_Present handle nat nat
  | Call_SDL_Quit

record env =
  SDL_Init_r :: int
  SDL_GetError_r :: string
  SDL_CreateWindow_r :: "handle option"
  SDL_GetWindowWMInfo_r :: bool
  wm_window :: HWND
  D3D11CreateDevice_r :: "HRESULT \<times> handle \<times> handle"
  As_IDXGIDevice_r :: "HRESULT \<times> handle"
  GetParent_IDXGIAdapter_r :: "HRESULT \<times> handle"
  GetParent_IDXGIFactory_r :: "HRESULT \<times> handle"
  CreateSwapChain_r :: "HRESULT \<times> handle"
  GetBuffer_r :: "HRESULT \<times> handle"
  CreateRenderTargetView_r :: "HRESULT \<times> handle"
  CreateTexture2D_r :: "HRESULT \<times> handle"
  CreateDepthStencilView_r :: "HRESULT \<times> handle"
  SDL_PollEvent_r :: "nat \<Rightarrow> SDL_Event option"

text \<open>
  The program's globals, the calls made so far, the number of polls made so far, and the
  two pieces of pipeline state the program sets: the views bound to the output-merger
  stage (the arguments of the last \<open>OMSetRenderTargets\<close>) and the viewports (the
  arguments of the last \<open>RSSetViewports\<close>).
\<close>

record world =
  calls :: "call list"
  polls :: nat
  direct3dSwapChain :: ComPtr
  direct3dDevice :: ComPtr
  direct3dDeviceContext :: ComPtr
  mRenderTargetView :: ComPtr
  mDepthStencilView :: ComPtr
  om_render_targets :: "ComPtr list"
  om_depth_stencil :: ComPtr
  rs_viewports :: "D3D11_VIEWPORT list"

definition initial_world :: world where
  "initial_world =
     \<lparr>calls = [], polls = 0,
      direct3dSwapChain = None, direct3dDevice = None, direct3dDeviceContext = None,
      mRenderTargetView = None, mDepthStencilView = None,
      om_render_targets = [], om_depth_stencil = None, rs_viewports = []\<rparr>"

definition emit :: "call \<Rightarrow> world \<Rightarrow> world" where
  "emit c w = w\<lparr>calls := calls w @ [c]\<rparr>"

definition SDL_Log :: "string \<Rightarrow> world \<Rightarrow> world" where
  "SDL_Log s w = emit (Call_SDL_Log s) w"

section \<open>main.cpp\<close>

definition InitializeDeviceAndDeviceContext :: "env \<Rightarrow> world \<Rightarrow> (error + unit) \<times> world" where
  "InitializeDeviceAndDeviceContext env w =
     (let w1 = SDL_Log ''Initializing Direct3D Device and DeviceContext...'' w;
          w2 = emit (Call_D3D11CreateDevice D3D_DRIVER_TYPE_HARDWARE
                       [D3D11_CREATE_DEVICE_DEBUG, D3D11_CREATE_DEVICE_SINGLETHREADED]) w1;
          deviceCreationResult = fst (D3D11CreateDevice_r env)
      in if deviceCreationResult \<noteq> S_OK
         then (Inl (Thrown (Direct3dException_ctor
                 (''Error initializing device or device context. Error code: ''
                    @ to_string (sint deviceCreationResult)))), w2)
         else (Inr (),
               w2\<lparr>direct3dDevice := Some (fst (snd (D3D11CreateDevice_r env))),
                  direct3dDeviceContext := Some (snd (snd (D3D11CreateDevice_r env)))\<rparr>))"

definition swap_chain_desc :: "HWND \<Rightarrow> DXGI_SWAP_CHAIN_DESC" where
  "swap_chain_desc windowHandle =
     \<lparr>BufferDesc_Width = 0, BufferDesc_Height = 0,
      BufferDesc_RefreshRate_Numerator = 60, BufferDesc_RefreshRate_Denominator = 1,
      BufferDesc_Format = DXGI_FORMAT_R8G8B8A8_UNORM,
      BufferDesc_ScanlineOrdering = DXGI_MODE_SCANLINE_ORDER_UNSPECIFIED,
      BufferDesc_Scaling = DXGI_MODE_SCALING_UNSPECIFIED,
      sd_SampleDesc = \<lparr>Count = 1, Quality = 0\<rparr>,
      BufferUsage = DXGI_USAGE_RENDER_TARGET_OUTPUT,
      BufferCount = 1, OutputWindow = windowHandle, Windowed = True,
      SwapEffect = DXGI_SWAP_EFFECT_DISCARD, sd_Flags = 0\<rparr>"

definition InitializeSwapChain :: "env \<Rightarrow> HWND \<Rightarrow> world \<Rightarrow> (error + unit) \<times> world" where
  "InitializeSwapChain env windowHandle w =
     (let w1 = SDL_Log ''Initializing Direct3D swapchain...'' w;
          sd = swap_chain_desc windowHandle
      in case direct3dDevice w1 of
           None \<Rightarrow> (Inl UndefinedBehaviour, w1)
         | Some device \<Rightarrow>
      let w2 = emit (Call_As_IDXGIDevice device) w1;
          dxgiDeviceCastResult = fst (As_IDXGIDevice_r env);
          dxgiDevice = snd (As_IDXGIDevice_r env)
      in if dxgiDeviceCastResult \<noteq> S_OK
         then (Inl (Thrown (Direct3dException_ctor
                 (''Failed to retrive interface for IDXGIDevice. Error code: ''
                    @ to_string (sint dxgiDeviceCastResult)))), w2)
         else
      let w3 = emit (Call_GetParent_IDXGIAdapter dxgiDevice) w2;
          idxgiAdapterRetrievalResult = fst (GetParent_IDXGIAdapter_r env);
          dxgiAdapter = snd (GetParent_IDXGIAdapter_r env)
      in if idxgiAdapterRetrievalResult \<noteq> S_OK
         then (Inl (Thrown (Direct3dException_ctor
                 (''Failed to retrieve parent IDXGIAdapter from IDXGIDevice. Error code: ''
                    @ to_string (sint idxgiAdapterRetrievalResult)))), w3)
         else
      let w4 = emit (Call_GetParent_IDXGIFactory dxgiAdapter) w3;
          idxgiFactoryRetrievalResult = fst (GetParent_IDXGIFactory_r env);
          dxgiFactory = snd (GetParent_IDXGIFactory_r env)
      in if idxgiFactoryRetrievalResult \<noteq> S_OK
         then (Inl (Thrown (Direct3dException_ctor
                 (''Failed to retrieve parent IDXGIFactory from IDXGIFactory. Error code: ''
                    @ to_string (sint idxgiFactoryRetrievalResult)))), w4)
         else
      let w5 = emit (Call_CreateSwapChain dxgiFactory device sd) w4;
          swapChainCreationResult = fst (CreateSwapChain_r env)
      in if swapChainCreationResult \<noteq> S_OK
         then (Inl (Thrown (Direct3dException_ctor
                 (''Failed to create swapchain. Error code: ''
                    @ to_string (sint swapChainCreationResult)))), w5)
         else (Inr (), w5\<lparr>direct3dSwapChain := Some (snd (CreateSwapChain_r env))\<rparr>))"

definition depthStencilDesc :: D3D11_TEXTURE2D_DESC where
  "depthStencilDesc =
     \<lparr>tex_Width = 640, tex_Height = 480, MipLevels = 1, ArraySize = 1,
      tex_Format = DXGI_FORMAT_D24_UNORM_S8_UINT,
      tex_SampleDesc = \<lparr>Count = 1, Quality = 0\<rparr>,
      Usage = D3D11_USAGE_DEFAULT, BindFlags = [D3D11_BIND_DEPTH_STENCIL],
      CPUAccessFlags = 0, MiscFlags = 0\<rparr>"

definition InitializeBackBufferAndDepthStencilView :: "env \<Rightarrow> world \<Rightarrow> (error + unit) \<times> world" where
  "InitializeBackBufferAndDepthStencilView env w =
     (case direct3dSwapChain w of
        None \<Rightarrow> (Inl UndefinedBehaviour, w)
      | Some swapChain \<Rightarrow>
      let w1 = emit (Call_GetBuffer swapChain 0) w;
          getSwapChainBufferResult = fst (GetBuffer_r env);
          backBuffer = snd (GetBuffer_r env)
      in if getSwapChainBufferResult \<noteq> S_OK
         then (Inl (Thrown (Direct3dException_ctor
                 (''Failed to retrieve swapchain back buffer. Error Code''
                    @ to_string (sint getSwapChainBufferResult)))), w1)
         else
     (case direct3dDevice w1 of
        None \<Rightarrow> (Inl UndefinedBehaviour, w1)
      | Some device \<Rightarrow>
      let w2 = emit (Call_CreateRenderTargetView device backBuffer) w1;
          createRenderTargetViewResult = fst (CreateRenderTargetView_r env)
      in if createRenderTargetViewResult \<noteq> S_OK
         then (Inl (Thrown (Direct3dException_ctor
                 (''Failed to create render target view. Error Code: ''
                    @ to_string (sint createRenderTargetViewResult)))), w2)
         else
      let w3 = w2\<lparr>mRenderTargetView := Some (snd (CreateRenderTargetView_r env))\<rparr>;
          w4 = emit (Call_CreateTexture2D device depthStencilDesc) w3;
          texture2dCreationResult = fst (CreateTexture2D_r env);
          mDepthStencilBuffer = snd (CreateTexture2D_r env)
      in if texture2dCreationResult \<noteq> S_OK
         then (case literal_plus
                      ''Failed to create 2D texture for depth stencil buffer. Error Code: ''
                      (sint texture2dCreationResult) of
                 None \<Rightarrow> (Inl UndefinedBehaviour, w4)
               | Some errorMessage \<Rightarrow> (Inl (Thrown (Direct3dException_ctor errorMessage)), w4))
         else
      let w5 = emit (Call_CreateDepthStencilView device mDepthStencilBuffer) w4;
          depthStencilViewCreationResult = fst (CreateDepthStencilView_r env)
      in if depthStencilViewCreationResult \<noteq> S_OK
         then (Inl (Thrown (Direct3dException_ctor
                 (''Failed to create depth stencil view. Error Code: ''
                    @ to_string (sint depthStencilViewCreationResult)))), w5)
         else
      let w6 = w5\<lparr>mDepthStencilView := Some (snd (CreateDepthStencilView_r env))\<rparr>
      in (case direct3dDeviceContext w6 of
            None \<Rightarrow> (Inl UndefinedBehaviour, w6)
          | Some context \<Rightarrow>
              (Inr (),
               (emit (Call_OMSetRenderTargets context 1
                        [mRenderTargetView w6] (mDepthStencilView w6)) w6)
                 \<lparr>om_render_targets := [mRenderTargetView w6],
                  om_depth_stencil := mDepthStencilView w6\<rparr>))))"

definition viewport :: D3D11_VIEWPORT where
  "viewport = \<lparr>TopLeftX = 0, TopLeftY = 0, vp_Width = 800, vp_Height = 600,
               MinDepth = 0, MaxDepth = 1\<rparr>"

definition InitializeViewport :: "world \<Rightarrow> (error + unit) \<times> world" where
  "InitializeViewport w =
     (case direct3dDeviceContext w of
        None \<Rightarrow> (Inl UndefinedBehaviour, w)
      | Some context \<Rightarrow>
          (Inr (), (emit (Call_RSSetViewports context 1 [viewport]) w)\<lparr>rs_viewports := [viewport]\<rparr>))"

definition InitializeDirect3d :: "env \<Rightarrow> HWND \<Rightarrow> world \<Rightarrow> (error + unit) \<times> world" where
  "InitializeDirect3d env windowHandle w =
     (case InitializeDeviceAndDeviceContext env w of
        (Inl e, w1) \<Rightarrow> (Inl e, w1)
      | (Inr _, w1) \<Rightarrow>
     (case InitializeSwapChain env windowHandle w1 of
        (Inl e, w2) \<Rightarrow> (Inl e, w2)
      | (Inr _, w2) \<Rightarrow>
     (case InitializeBackBufferAndDepthStencilView env w2 of
        (Inl e, w3) \<Rightarrow> (Inl e, w3)
      | (Inr _, w3) \<Rightarrow> InitializeViewport w3)))"

subsection \<open>The frame loop\<close>

text \<open>Lines 110 to 115: the poll and its effect on the flag \<open>quit\<close>.\<close>

definition poll_quit :: "SDL_Event option \<Rightarrow> bool \<Rightarrow> bool" where
  "poll_quit p quit =
     (case p of
        None \<Rightarrow> quit
      | Some e \<Rightarrow> if ev_type e = SDL_QUIT then True else quit)"

definition SDL_PollEvent :: "env \<Rightarrow> world \<Rightarrow> SDL_Event option \<times> world" where
  "SDL_PollEvent env w =
     (SDL_PollEvent_r env (polls w), (emit Call_SDL_PollEvent w)\<lparr>polls := Suc (polls w)\<rparr>)"

text \<open>One pass through the body of the \<open>while\<close> loop; it returns the new value of \<open>quit\<close>.\<close>

definition frame_body :: "env \<Rightarrow> bool \<Rightarrow> world \<Rightarrow> (error + bool) \<times> world" where
  "frame_body env quit w =
     (let p = fst (SDL_PollEvent env w);
          w1 = snd (SDL_PollEvent env w);
          quit' = poll_quit p quit
      in case direct3dDeviceContext w1 of
           None \<Rightarrow> (Inl UndefinedBehaviour, w1)
         | Some context \<Rightarrow>
      let w2 = emit (Call_ClearRenderTargetView context (mRenderTargetView w1) CornflowerBlue) w1;
          w3 = emit (Call_ClearDepthStencilView context (mDepthStencilView w2)
                       [D3D11_CLEAR_DEPTH, D3D11_CLEAR_STENCIL] 1 0) w2
      in (case direct3dSwapChain w3 of
            None \<Rightarrow> (Inl UndefinedBehaviour, w3)
          | Some swapChain \<Rightarrow> (Inr quit', emit (Call_Present swapChain 0 0) w3)))"

text \<open>
  \<open>while (!quit) { ... }\<close>. The loop runs for as long as no quit event is polled, so it
  is a partial function: \<open>None\<close> is the run that never leaves the loop.
\<close>

partial_function (option) frame_loop :: "env \<Rightarrow> bool \<Rightarrow> world \<Rightarrow> ((error + unit) \<times> world) option" where
  "frame_loop env quit w =
     (if quit then Some (Inr (), w)
      else case frame_body env quit w of
             (Inl e, w') \<Rightarrow> Some (Inl e, w')
           | (Inr quit', w') \<Rightarrow> frame_loop env quit' w')"

declare frame_loop.simps [code]

subsection \<open>main\<close>

text \<open>
  The result of \<open>main\<close>: \<open>None\<close> when the frame loop never ends, else the value returned
  (\<open>Inr\<close>) or undefined behaviour, with the world as it is left.
\<close>

definition main :: "env \<Rightarrow> ((error + int) \<times> world) option" where
  "main env =
     (let w0 = emit (Call_SDL_Init [SDL_INIT_VIDEO, SDL_INIT_EVENTS, SDL_INIT_AUDIO])
                 initial_world
      in if SDL_Init_r env \<noteq> 0
         then Some (Inr 1, SDL_Log (''Unable to initialize SDL: '' @ SDL_GetError_r env) w0)
         else
      let w1 = SDL_Log ''SDL initialized...'' w0;
          w2 = SDL_Log ''Initializing main window...'' w1;
          w3 = emit (Call_SDL_CreateWindow ''Rotating Cube''
                       SDL_WINDOWPOS_CENTERED SDL_WINDOWPOS_CENTERED 640 480 0) w2
      in case SDL_CreateWindow_r env of
           None \<Rightarrow>
             Some (Inr 1,
                   SDL_Log (''Unable to create main application window: '' @ SDL_GetError_r env) w3)
         | Some mainWindow \<Rightarrow>
      let w4 = SDL_Log ''Main application window created...'' w3;
          w5 = emit (Call_SDL_GetWindowWMInfo mainWindow) w4;
          windowHandle = wm_window env;
          w6 = SDL_Log ''Initializing Direct3D...'' w5
      in (case InitializeDirect3d env windowHandle w6 of
            (Inl (Thrown ex), w7) \<Rightarrow>
              Some (Inr 1, SDL_Log (''An error occured initialization Direct3D: '' @ what ex) w7)
          | (Inl UndefinedBehaviour, w7) \<Rightarrow> Some (Inl UndefinedBehaviour, w7)
          | (Inr _, w7) \<Rightarrow>
              (case frame_loop env False w7 of
                 None \<Rightarrow> None
               | Some (Inl e, w8) \<Rightarrow> Some (Inl e, w8)
               | Some (Inr _, w8) \<Rightarrow> Some (Inr 0, emit Call_SDL_Quit w8))))"

section \<open>Observations and concrete runs\<close>

text \<open>What a run of \<open>main\<close> returned, and the calls it made.\<close>

definition exit_code :: "((error + int) \<times> world) option \<Rightarrow> (error + int) option" where
  "exit_code r = map_option fst r"

definition calls_made :: "((error + int) \<times> world) option \<Rightarrow> call list option" where
  "calls_made r = map_option (\<lambda>x. calls (snd x)) r"

text \<open>
  A run in which every call succeeds and every poll yields a quit event; the other runs
  used below change one answer of it.
\<close>

definition quit_event :: SDL_Event where
  "quit_event = \<lparr>ev_type = SDL_QUIT\<rparr>"

definition env_ok :: env where
  "env_ok =
     \<lparr>SDL_Init_r = 0, SDL_GetError_r = [], SDL_CreateWindow_r = Some 1,
      SDL_GetWindowWMInfo_r = True, wm_window = 2,
      D3D11CreateDevice_r = (S_OK, 3, 4),
      As_IDXGIDevice_r = (S_OK, 5),
      GetParent_IDXGIAdapter_r = (S_OK, 6),
      GetParent_IDXGIFactory_r = (S_OK, 7),
      CreateSwapChain_r = (S_OK, 8),
      GetBuffer_r = (S_OK, 9),
      CreateRenderTargetView_r = (S_OK, 10),
      CreateTexture2D_r = (S_OK, 11),
      CreateDepthStencilView_r = (S_OK, 12),
      SDL_PollEvent_r = (\<lambda>i. Some quit_event)\<rparr>"

text \<open>
  Device creation answers \<open>0x887A0004\<close>; creation of the depth texture answers
  \<open>0x8007000E\<close> (\<open>E_OUTOFMEMORY\<close>).
\<close>

definition env_device_creation_fails :: env where
  "env_device_creation_fails = env_ok\<lparr>D3D11CreateDevice_r := (0x887A0004, 0, 0)\<rparr>"

definition env_depth_texture_fails :: env where
  "env_depth_texture_fails = env_ok\<lparr>CreateTexture2D_r := (0x8007000E, 0)\<rparr>"

text \<open>The globals as the device and swap-chain initializers leave them in \<open>env_ok\<close>.\<close>

definition world_with_swap_chain :: world where
  "world_with_swap_chain =
     initial_world\<lparr>direct3dSwapChain := Some 8, direct3dDevice := Some 3,
                   direct3dDeviceContext := Some 4\<rparr>"

text \<open>
  The swap-chain initializer run in \<open>env_ok\<close> with one step of its chain answering a
  failure: step 0 is the cast to \<open>IDXGIDevice\<close> (\<open>E_NOINTERFACE\<close>), step 1 the adapter
  query, step 2 the factory query (\<open>E_FAIL\<close>), any other number the creation of the swap
  chain (\<open>DXGI_ERROR_INVALID_CALL\<close>).
\<close>

definition env_chain_fails :: "nat \<Rightarrow> env" where
  "env_chain_fails k =
     (if k = 0 then env_ok\<lparr>As_IDXGIDevice_r := (0x80004002, 0)\<rparr>
      else if k = 1 then env_ok\<lparr>GetParent_IDXGIAdapter_r := (0x80004005, 0)\<rparr>
      else if k = 2 then env_ok\<lparr>GetParent_IDXGIFactory_r := (0x80004005, 0)\<rparr>
      else env_ok\<lparr>CreateSwapChain_r := (0x887A0001, 0)\<rparr>)"

text \<open>The globals as the device initializer leaves them in \<open>env_ok\<close>.\<close>

definition world_with_device :: world where
  "world_with_device =
     initial_world\<lparr>direct3dDevice := Some 3, direct3dDeviceContext := Some 4\<rparr>"

text \<open>The two states of the frame loop, read off the flag \<open>quit\<close>.\<close>

datatype loop_state = Running | Quit

definition loop_state_of :: "bool \<Rightarrow> loop_state" where
  "loop_state_of quit = (if quit then Quit else Running)"

text \<open>The world as \<open>InitializeDirect3d\<close> leaves it in \<open>env_ok\<close>, its calls left out.\<close>

definition world_ready :: world where
  "world_ready =
     initial_world\<lparr>direct3dSwapChain := Some 8, direct3dDevice := Some 3,
                   direct3dDeviceContext := Some 4,
                   mRenderTargetView := Some 10, mDepthStencilView := Some 12,
                   om_render_targets := [Some 10], om_depth_stencil := Some 12,
                   rs_viewports := [viewport]\<rparr>"

text \<open>Runs of the loop that poll a key press (\<open>SDL_KEYDOWN\<close>), and an empty queue.\<close>

definition env_keydown :: env where
  "env_keydown = env_ok\<lparr>SDL_PollEvent_r := (\<lambda>i. Some \<lparr>ev_type = 0x300\<rparr>)\<rparr>"

definition env_idle :: env where
  "env_idle = env_ok\<lparr>SDL_PollEvent_r := (\<lambda>i. None)\<rparr>"

text \<open>The views bound to the output-merger stage.\<close>

definition bound_views :: "world \<Rightarrow> ComPtr list \<times> ComPtr" where
  "bound_views w = (om_render_targets w, om_depth_stencil w)"

text \<open>Every call of the start-up answers success.\<close>

definition direct3d_succeeds :: "env \<Rightarrow> bool" where
  "direct3d_succeeds env \<longleftrightarrow>
     fst (D3D11CreateDevice_r env) = S_OK \<and> fst (As_IDXGIDevice_r env) = S_OK
     \<and> fst (GetParent_IDXGIAdapter_r env) = S_OK \<and> fst (GetParent_IDXGIFactory_r env) = S_OK
     \<and> fst (CreateSwapChain_r env) = S_OK \<and> fst (GetBuffer_r env) = S_OK
     \<and> fst (CreateRenderTargetView_r env) = S_OK \<and> fst (CreateTexture2D_r env) = S_OK
     \<and> fst (CreateDepthStencilView_r env) = S_OK"

definition init_succeeds :: "env \<Rightarrow> bool" where
  "init_succeeds env \<longleftrightarrow>
     SDL_Init_r env = 0 \<and> SDL_CreateWindow_r env \<noteq> None \<and> direct3d_succeeds env"

text \<open>The calls a successful \<open>InitializeDirect3d\<close> makes, in order.\<close>

definition direct3d_calls :: "env \<Rightarrow> HWND \<Rightarrow> call list" where
  "direct3d_calls env windowHandle =
     [Call_SDL_Log ''Initializing Direct3D Device and DeviceContext...'',
      Call_D3D11CreateDevice D3D_DRIVER_TYPE_HARDWARE
        [D3D11_CREATE_DEVICE_DEBUG, D3D11_CREATE_DEVICE_SINGLETHREADED],
      Call_SDL_Log ''Initializing Direct3D swapchain...'',
      Call_As_IDXGIDevice (fst (snd (D3D11CreateDevice_r env))),
      Call_GetParent_IDXGIAdapter (snd (As_IDXGIDevice_r env)),
      Call_GetParent_IDXGIFactory (snd (GetParent_IDXGIAdapter_r env)),
      Call_CreateSwapChain (snd (GetParent_IDXGIFactory_r env))
        (fst (snd (D3D11CreateDevice_r env))) (swap_chain_desc windowHandle),
      Call_GetBuffer (snd (CreateSwapChain_r env)) 0,
      Call_CreateRenderTargetView (fst (snd (D3D11CreateDevice_r env))) (snd (GetBuffer_r env)),
      Call_CreateTexture2D (fst (snd (D3D11CreateDevice_r env))) depthStencilDesc,
      Call_CreateDepthStencilView (fst (snd (D3D11CreateDevice_r env)))
        (snd (CreateTexture2D_r env)),
      Call_OMSetRenderTargets (snd (snd (D3D11CreateDevice_r env))) 1
        [Some (snd (CreateRenderTargetView_r env))] (Some (snd (CreateDepthStencilView_r env))),
      Call_RSSetViewports (snd (snd (D3D11CreateDevice_r env))) 1 [viewport]]"

text \<open>The calls \<open>main\<close> makes up to the frame loop when the whole start-up succeeds.\<close>

definition startup_calls :: "env \<Rightarrow> handle \<Rightarrow> call list" where
  "startup_calls env mainWindow =
     [Call_SDL_Init [SDL_INIT_VIDEO, SDL_INIT_EVENTS, SDL_INIT_AUDIO],
      Call_SDL_Log ''SDL initialized...'',
      Call_SDL_Log ''Initializing main window...'',
      Call_SDL_CreateWindow ''Rotating Cube''
        SDL_WINDOWPOS_CENTERED SDL_WINDOWPOS_CENTERED 640 480 0,
      Call_SDL_Log ''Main application window created...'',
      Call_SDL_GetWindowWMInfo mainWindow,
      Call_SDL_Log ''Initializing Direct3D...'']
     @ direct3d_calls env (wm_window env)"

text \<open>The calls one pass through the loop body makes.\<close>

definition frame_calls :: "handle \<Rightarrow> handle \<Rightarrow> ComPtr \<Rightarrow> ComPtr \<Rightarrow> call list" where
  "frame_calls context swapChain renderTargetView depthStencilView =
     [Call_SDL_PollEvent,
      Call_ClearRenderTargetView context renderTargetView CornflowerBlue,
      Call_ClearDepthStencilView context depthStencilView
        [D3D11_CLEAR_DEPTH, D3D11_CLEAR_STENCIL] 1 0,
      Call_Present swapChain 0 0]"

text \<open>How many times a run cleared the render target, cleared the depth-stencil view, presented.\<close>

fun is_ClearRenderTargetView :: "call \<Rightarrow> bool" where
  "is_ClearRenderTargetView (Call_ClearRenderTargetView c v col) = True"
| "is_ClearRenderTargetView _ = False"

fun is_ClearDepthStencilView :: "call \<Rightarrow> bool" where
  "is_ClearDepthStencilView (Call_ClearDepthStencilView c v fl d s) = True"
| "is_ClearDepthStencilView _ = False"

fun is_Present :: "call \<Rightarrow> bool" where
  "is_Present (Call_Present c i f) = True"
| "is_Present _ = False"

definition clear_present_cycles :: "call list \<Rightarrow> nat \<times> nat \<times> nat" where
  "clear_present_cycles tr =
     (length (filter is_ClearRenderTargetView tr),
      length (filter is_ClearDepthStencilView tr),
      length (filter is_Present tr))"

text \<open>The sizes a run asked for: of the window, of the depth-stencil texture, of the viewport.\<close>

fun window_size_of :: "call \<Rightarrow> (nat \<times> nat) list" where
  "window_size_of (Call_SDL_CreateWindow title x y w h flags) = [(w, h)]"
| "window_size_of _ = []"

fun depth_stencil_size_of :: "call \<Rightarrow> (nat \<times> nat) list" where
  "depth_stencil_size_of (Call_CreateTexture2D device desc) = [(tex_Width desc, tex_Height desc)]"
| "depth_stencil_size_of _ = []"

fun viewports_of :: "call \<Rightarrow> D3D11_VIEWPORT list" where
  "viewports_of (Call_RSSetViewports context n vps) = vps"
| "viewports_of _ = []"

definition window_sizes :: "call list \<Rightarrow> (nat \<times> nat) list" where
  "window_sizes tr = concat (map window_size_of tr)"

definition depth_stencil_sizes :: "call list \<Rightarrow> (nat \<times> nat) list" where
  "depth_stencil_sizes tr = concat (map depth_stencil_size_of tr)"

definition viewports_set :: "call list \<Rightarrow> D3D11_VIEWPORT list" where
  "viewports_set tr = concat (map viewports_of tr)"


text \<open>The world in which \<open>main\<close> calls \<open>InitializeDirect3d\<close>.\<close>

definition world_before_direct3d :: "handle \<Rightarrow> world" where
  "world_before_direct3d mainWindow =
     SDL_Log ''Initializing Direct3D...''
       (emit (Call_SDL_GetWindowWMInfo mainWindow)
         (SDL_Log ''Main application window created...''
           (emit (Call_SDL_CreateWindow ''Rotating Cube''
                    SDL_WINDOWPOS_CENTERED SDL_WINDOWPOS_CENTERED 640 480 0)
             (SDL_Log ''Initializing main window...''
               (SDL_Log ''SDL initialized...''
                 (emit (Call_SDL_Init [SDL_INIT_VIDEO, SDL_INIT_EVENTS, SDL_INIT_AUDIO])
                    initial_world))))))"

text \<open>Reading a decimal numeral back, to show that the numeral determines the number.\<close>

definition digit_value :: "char \<Rightarrow> nat" where
  "digit_value c = of_char c - 48"

definition string_to_nat :: "string \<Rightarrow> nat" where
  "string_to_nat s = foldl (\<lambda>a c. 10 * a + digit_value c) 0 s"

definition string_to_int :: "string \<Rightarrow> int" where
  "string_to_int s =
     (case s of
        [] \<Rightarrow> 0
      | c # cs \<Rightarrow> if c = CHR ''-'' then - int (string_to_nat cs) else int (string_to_nat s))"

text \<open>The \<open>i\<close>-th poll yields a quit event.\<close>

definition quit_polled :: "env \<Rightarrow> nat \<Rightarrow> bool" where
  "quit_polled env i =
     (case SDL_PollEvent_r env i of None \<Rightarrow> False | Some e \<Rightarrow> ev_type e = SDL_QUIT)"

text \<open>
  A run of the loop whose first poll finds the queue empty, whose second yields a key
  press and whose third yields the quit event.
\<close>

definition env_quit_third :: env where
  "env_quit_third =
     env_ok\<lparr>SDL_PollEvent_r :=
       (\<lambda>i. if i = 0 then None
            else if i = 1 then Some \<lparr>ev_type = 0x300\<rparr>
            else Some quit_event)\<rparr>"

text \<open>The world in which \<open>main\<close> enters the frame loop.\<close>

definition world_at_loop_entry :: "env \<Rightarrow> handle \<Rightarrow> world" where
  "world_at_loop_entry env mainWindow =
     snd (InitializeDirect3d env (wm_window env) (world_before_direct3d mainWindow))"

section \<open>Strings\<close>

lemma digit_char_range: "d < 10 \<Longrightarrow> digit_char d \<in> set ''0123456789''"
  unfolding digit_char_def by (rule nth_mem) simp

lemma nat_to_string_digits: "set (nat_to_string n) \<subseteq> set ''0123456789''"
proof (induction n rule: nat_to_string.induct)
  case (1 n)
  show ?case
  proof (cases "n < 10")
    case True
    then show ?thesis
      using digit_char_range [of n] by (subst nat_to_string.simps) simp
  next
    case False
    have "n mod 10 < 10" by simp
    then have "digit_char (n mod 10) \<in> set ''0123456789''" by (rule digit_char_range)
    with False 1 show ?thesis
      by (subst nat_to_string.simps) simp
  qed
qed

lemma to_string_no_NUL: "NUL \<notin> set (to_string i)"
proof -
  have "NUL \<notin> set ''0123456789''" by (simp add: NUL_def)
  then have "NUL \<notin> set (nat_to_string n)" for n
    using nat_to_string_digits [of n] by blast
  then show ?thesis by (simp add: to_string_def NUL_def)
qed

lemma c_str_no_NUL: "NUL \<notin> set s \<Longrightarrow> c_str s = s"
  unfolding c_str_def by (induction s) auto

lemma what_ctor: "what (Direct3dException_ctor m) = c_str m"
  by (simp add: what_def Direct3dException_ctor_def)

lemma c_str_literal_to_string:
  "NUL \<notin> set lit \<Longrightarrow> c_str (lit @ to_string i) = lit @ to_string i"
  by (rule c_str_no_NUL) (simp add: to_string_no_NUL)

lemma digit_value_digit_char:
  assumes "d < 10"
  shows "digit_value (digit_char d) = d"
proof -
  have "\<forall>d \<in> set [0..<10]. digit_value (digit_char d) = d"
    by code_simp
  with assms show ?thesis
    by simp
qed


lemma string_to_nat_snoc:
  "string_to_nat (s @ [c]) = 10 * string_to_nat s + digit_value c"
  by (simp add: string_to_nat_def)

lemma nat_to_string_not_empty: "nat_to_string n \<noteq> []"
  by (subst nat_to_string.simps) simp

lemma nat_to_string_no_minus: "CHR ''-'' \<notin> set (nat_to_string n)"
proof -
  have "CHR ''-'' \<notin> set ''0123456789''" by simp
  with nat_to_string_digits [of n] show ?thesis by blast
qed


lemma string_to_nat_nat_to_string: "string_to_nat (nat_to_string n) = n"
proof (induction n rule: nat_to_string.induct)
  case (1 n)
  show ?case
  proof (cases "n < 10")
    case True
    then have "nat_to_string n = [digit_char n]"
      by (subst nat_to_string.simps) simp
    with True show ?thesis
      by (simp add: string_to_nat_def digit_value_digit_char)
  next
    case False
    with 1 have IH: "string_to_nat (nat_to_string (n div 10)) = n div 10" by simp
    from False have "nat_to_string n = nat_to_string (n div 10) @ [digit_char (n mod 10)]"
      by (subst nat_to_string.simps) simp
    then have "string_to_nat (nat_to_string n) = 10 * (n div 10) + n mod 10"
      by (simp only: string_to_nat_snoc IH) (simp add: digit_value_digit_char)
    then show ?thesis by simp
  qed
qed


lemma string_to_int_to_string: "string_to_int (to_string i) = i"
proof (cases "i < 0")
  case True
  then show ?thesis
    by (simp add: string_to_int_def to_string_def string_to_nat_nat_to_string)
next
  case False
  obtain c cs where s: "nat_to_string (nat i) = c # cs"
    using nat_to_string_not_empty [of "nat i"] by (cases "nat_to_string (nat i)") auto
  with nat_to_string_no_minus [of "nat i"] have c: "c \<noteq> CHR ''-''" by auto
  have "string_to_nat (c # cs) = nat i"
    using string_to_nat_nat_to_string [of "nat i"] by (simp only: s)
  with False c show ?thesis
    by (simp add: string_to_int_def to_string_def s)
qed

lemma to_string_inj:
  assumes "to_string i = to_string j"
  shows "i = j"
proof -
  from assms have "string_to_int (to_string i) = string_to_int (to_string j)"
    by (rule arg_cong)
  then show ?thesis
    by (simp only: string_to_int_to_string)
qed

text \<open>
  The decimal form determines the status: messages built from the same text and the
  decimal forms of two statuses are equal only if the statuses are.
\<close>

lemma status_read_back:
  fixes a b :: HRESULT
  assumes "lit @ to_string (sint a) = lit @ to_string (sint b)"
  shows "a = b"
proof -
  from assms have "to_string (sint a) = to_string (sint b)" by (simp only: same_append_eq)
  then have "sint a = sint b" by (rule to_string_inj)
  then show ?thesis by (rule signed_word_eqI)
qed

section \<open>Direct3dException: what the constructor stores, \<open>what\<close> returns\<close>

text \<open>
  C9, as stated, fails: \<open>what\<close> returns a \<open>const char*\<close>, and a message with an
  embedded NUL is read back only up to that NUL. Here the message \<open>a\\0b\<close> comes back
  as \<open>a\<close>.
\<close>

theorem what_roundtrip_counterexample:
  "what (Direct3dException_ctor [CHR ''a'', NUL, CHR ''b'']) = [CHR ''a'']
   \<and> what (Direct3dException_ctor [CHR ''a'', NUL, CHR ''b'']) \<noteq> [CHR ''a'', NUL, CHR ''b'']"
  by (simp add: what_ctor c_str_def NUL_def)

text \<open>
  C9, amended: for every message \<open>m\<close> that holds no NUL character, constructing a
  \<open>Direct3dException\<close> with \<open>m\<close> and calling \<open>what\<close> on it yields exactly the
  characters of \<open>m\<close>; a message with an embedded NUL is read back only up to its first
  NUL.
\<close>

theorem what_roundtrip:
  "(NUL \<notin> set m \<longrightarrow> what (Direct3dException_ctor m) = m)
   \<and> what (Direct3dException_ctor m) = takeWhile (\<lambda>c. c \<noteq> NUL) m"
  by (simp add: what_ctor c_str_no_NUL) (simp add: c_str_def)

theorem what_roundtrip_witness:
  "NUL \<notin> set ''Failed to create swapchain. Error code: -2005270524''
   \<and> what (Direct3dException_ctor ''Failed to create swapchain. Error code: -2005270524'')
       = ''Failed to create swapchain. Error code: -2005270524''"
  using what_roundtrip [of "''Failed to create swapchain. Error code: -2005270524''"]
  by (simp add: NUL_def)

section \<open>Failure of device creation\<close>

lemma InitializeDeviceAndDeviceContext_fails:
  assumes "fst (D3D11CreateDevice_r env) \<noteq> S_OK"
  shows "InitializeDeviceAndDeviceContext env w =
           (Inl (Thrown (Direct3dException_ctor
              (''Error initializing device or device context. Error code: ''
                 @ to_string (sint (fst (D3D11CreateDevice_r env)))))),
            emit (Call_D3D11CreateDevice D3D_DRIVER_TYPE_HARDWARE
               [D3D11_CREATE_DEVICE_DEBUG, D3D11_CREATE_DEVICE_SINGLETHREADED])
              (SDL_Log ''Initializing Direct3D Device and DeviceContext...'' w))"
  using assms by (simp add: InitializeDeviceAndDeviceContext_def Let_def)

text \<open>
  C2: whenever device creation returns a status other than \<open>S_OK\<close>, the device
  initializer throws a \<open>Direct3dException\<close> whose message is the fixed text followed by
  the status code in decimal, as \<open>std::to_string\<close> prints it; when SDL and the window
  were set up, \<open>main\<close> then logs that message and returns 1. The witness is the run in
  which device creation returns \<open>0x887A0004\<close>, printed as \<open>-2005270524\<close>.
\<close>

theorem device_creation_failure_message:
  assumes "fst (D3D11CreateDevice_r env) \<noteq> S_OK"
  shows "fst (InitializeDeviceAndDeviceContext env w) =
           Inl (Thrown (Direct3dException_ctor
             (''Error initializing device or device context. Error code: ''
                @ to_string (sint (fst (D3D11CreateDevice_r env))))))
         \<and> (SDL_Init_r env = 0 \<and> SDL_CreateWindow_r env \<noteq> None \<longrightarrow>
              exit_code (main env) = Some (Inr 1)
              \<and> map_option last (calls_made (main env)) =
                  Some (Call_SDL_Log
                    (''An error occured initialization Direct3D: ''
                       @ ''Error initializing device or device context. Error code: ''
                       @ to_string (sint (fst (D3D11CreateDevice_r env))))))"
proof -
  have msg: "what (Direct3dException_ctor
               (''Error initializing device or device context. Error code: '' @ to_string i))
             = ''Error initializing device or device context. Error code: '' @ to_string i" for i
    unfolding what_ctor by (rule c_str_literal_to_string) (simp add: NUL_def)
  show ?thesis
    using assms
    by (auto simp: InitializeDeviceAndDeviceContext_fails main_def InitializeDirect3d_def
          exit_code_def calls_made_def Let_def msg [simplified] SDL_Log_def emit_def)
qed

theorem device_creation_failure_message_witness:
  "fst (D3D11CreateDevice_r env_device_creation_fails) \<noteq> S_OK
   \<and> sint (fst (D3D11CreateDevice_r env_device_creation_fails)) = - 2005270524
   \<and> exit_code (main env_device_creation_fails) = Some (Inr 1)
   \<and> map_option last (calls_made (main env_device_creation_fails)) =
       Some (Call_SDL_Log ''An error occured initialization Direct3D: Error initializing device or device context. Error code: -2005270524'')"
proof -
  have hr: "fst (D3D11CreateDevice_r env_device_creation_fails) \<noteq> S_OK"
    by (simp add: env_device_creation_fails_def env_ok_def S_OK_def)
  have s: "to_string (sint (fst (D3D11CreateDevice_r env_device_creation_fails))) = ''-2005270524''"
    by (simp add: env_device_creation_fails_def env_ok_def to_string_def
          nat_to_string.simps digit_char_def)
  have i: "SDL_Init_r env_device_creation_fails = 0 \<and> SDL_CreateWindow_r env_device_creation_fails \<noteq> None"
    by (simp add: env_device_creation_fails_def env_ok_def)
  have v: "sint (fst (D3D11CreateDevice_r env_device_creation_fails)) = - 2005270524"
    by (simp add: env_device_creation_fails_def env_ok_def)
  show ?thesis
    using device_creation_failure_message [OF hr, of initial_world] hr s i v by simp
qed

section \<open>Failure of depth-texture creation\<close>

text \<open>
  The checks next to the one of line 300: the failures of \<open>GetBuffer\<close>,
  \<open>CreateRenderTargetView\<close> and \<open>CreateDepthStencilView\<close> carry the name of the step and
  the status in decimal.
\<close>

lemma back_buffer_failure_messages:
  assumes "direct3dSwapChain w = Some swapChain" and "direct3dDevice w = Some device"
  shows "fst (GetBuffer_r env) \<noteq> S_OK \<Longrightarrow>
           fst (InitializeBackBufferAndDepthStencilView env w) =
             Inl (Thrown (Direct3dException_ctor
               (''Failed to retrieve swapchain back buffer. Error Code''
                  @ to_string (sint (fst (GetBuffer_r env))))))"
    and "fst (GetBuffer_r env) = S_OK \<Longrightarrow> fst (CreateRenderTargetView_r env) \<noteq> S_OK \<Longrightarrow>
           fst (InitializeBackBufferAndDepthStencilView env w) =
             Inl (Thrown (Direct3dException_ctor
               (''Failed to create render target view. Error Code: ''
                  @ to_string (sint (fst (CreateRenderTargetView_r env))))))"
    and "fst (GetBuffer_r env) = S_OK \<Longrightarrow> fst (CreateRenderTargetView_r env) = S_OK \<Longrightarrow>
         fst (CreateTexture2D_r env) = S_OK \<Longrightarrow> fst (CreateDepthStencilView_r env) \<noteq> S_OK \<Longrightarrow>
           fst (InitializeBackBufferAndDepthStencilView env w) =
             Inl (Thrown (Direct3dException_ctor
               (''Failed to create depth stencil view. Error Code: ''
                  @ to_string (sint (fst (CreateDepthStencilView_r env))))))"
  using assms
  by (simp_all add: InitializeBackBufferAndDepthStencilView_def emit_def Let_def)

text \<open>
  The check of line 300: a negative status (every \<open>FAILED\<close> status is negative) moves the
  pointer in front of the literal.
\<close>

lemma depth_texture_failure_negative:
  assumes "direct3dSwapChain w = Some swapChain" and "direct3dDevice w = Some device"
    and "fst (GetBuffer_r env) = S_OK" and "fst (CreateRenderTargetView_r env) = S_OK"
    and "sint (fst (CreateTexture2D_r env)) < 0"
  shows "fst (InitializeBackBufferAndDepthStencilView env w) = Inl UndefinedBehaviour"
proof -
  from assms(5) have "fst (CreateTexture2D_r env) \<noteq> S_OK"
    by (auto simp: S_OK_def)
  with assms show ?thesis
    by (simp add: InitializeBackBufferAndDepthStencilView_def emit_def Let_def literal_plus_def)
qed

text \<open>
  C3, at the input where the code departs from it: the swap chain, the back buffer and the
  render target view are there and \<open>CreateTexture2D\<close> returns \<open>0x8007000E\<close>. Line 300
  adds the status to the pointer of the literal instead of appending its decimal form, so
  the pointer leaves the literal and no message is built. Were the status 1, the message
  would be the literal without its first character, and still hold no status.
\<close>

theorem depth_texture_failure_is_undefined:
  "fst (CreateTexture2D_r env_depth_texture_fails) \<noteq> S_OK
   \<and> sint (fst (CreateTexture2D_r env_depth_texture_fails)) = - 2147024882
   \<and> fst (InitializeBackBufferAndDepthStencilView env_depth_texture_fails world_with_swap_chain)
       = Inl UndefinedBehaviour
   \<and> fst (InitializeBackBufferAndDepthStencilView (env_ok\<lparr>CreateTexture2D_r := (1, 0)\<rparr>)
            world_with_swap_chain)
       = Inl (Thrown (Direct3dException_ctor
           ''ailed to create 2D texture for depth stencil buffer. Error Code: ''))"
  by (simp add: env_depth_texture_fails_def env_ok_def world_with_swap_chain_def initial_world_def
        InitializeBackBufferAndDepthStencilView_def emit_def Let_def S_OK_def literal_plus_def)

section \<open>What \<open>main\<close> returns\<close>

text \<open>
  \<open>main\<close> returns 1 exactly when SDL does not start, the window is not created, or
  \<open>InitializeDirect3d\<close> throws; the exception is caught there and logged. It returns 0
  exactly when the start-up succeeds and the frame loop ends.
\<close>

lemma main_returns_1_iff:
  "exit_code (main env) = Some (Inr 1) \<longleftrightarrow>
     SDL_Init_r env \<noteq> 0 \<or> SDL_CreateWindow_r env = None
     \<or> (\<exists>mainWindow ex w7. SDL_CreateWindow_r env = Some mainWindow
           \<and> InitializeDirect3d env (wm_window env) (world_before_direct3d mainWindow)
               = (Inl (Thrown ex), w7))"
  by (auto simp: main_def exit_code_def Let_def world_before_direct3d_def
        split: option.splits prod.splits sum.splits error.splits)

lemma main_returns_0_iff:
  "exit_code (main env) = Some (Inr 0) \<longleftrightarrow>
     SDL_Init_r env = 0
     \<and> (\<exists>mainWindow w7 w8. SDL_CreateWindow_r env = Some mainWindow
           \<and> InitializeDirect3d env (wm_window env) (world_before_direct3d mainWindow)
               = (Inr (), w7)
           \<and> frame_loop env False w7 = Some (Inr (), w8))"
  by (auto simp: main_def exit_code_def Let_def world_before_direct3d_def
        split: option.splits prod.splits sum.splits error.splits)

lemma main_catches_exception:
  assumes "SDL_Init_r env = 0" and "SDL_CreateWindow_r env = Some mainWindow"
    and "InitializeDirect3d env (wm_window env) (world_before_direct3d mainWindow)
           = (Inl (Thrown ex), w7)"
  shows "main env =
           Some (Inr 1, SDL_Log (''An error occured initialization Direct3D: '' @ what ex) w7)"
  using assms by (simp add: main_def Let_def world_before_direct3d_def)

text \<open>
  C5, at the input where the code departs from it: SDL, the window and every Direct3D call
  succeed, except \<open>CreateTexture2D\<close>, which returns \<open>0x8007000E\<close>. The run ends in the
  undefined behaviour of line 300, not by an exception that is caught, logged and
  answered with the return of 1.
\<close>

theorem depth_texture_failure_exit:
  "exit_code (main env_depth_texture_fails) = Some (Inl UndefinedBehaviour)
   \<and> exit_code (main env_depth_texture_fails) \<noteq> Some (Inr 1)"
  by (simp add: env_depth_texture_fails_def env_ok_def exit_code_def main_def InitializeDirect3d_def
        InitializeDeviceAndDeviceContext_def InitializeSwapChain_def initial_world_def
        InitializeBackBufferAndDepthStencilView_def emit_def SDL_Log_def Let_def S_OK_def
        literal_plus_def swap_chain_desc_def)

section \<open>The swap-chain initializer\<close>

text \<open>
  C4: in the chain of \<open>InitializeSwapChain\<close> (cast to \<open>IDXGIDevice\<close>, parent adapter,
  parent factory, \<open>CreateSwapChain\<close>) the first step that returns a status other than
  \<open>S_OK\<close> ends the initializer with the exception of that step, and the calls made are
  the steps up to and including it: no later step is attempted. In particular a failing
  cast is followed by no adapter query.
\<close>

theorem swap_chain_fails_fast:
  assumes "direct3dDevice w = Some device"
  shows
    "(fst (As_IDXGIDevice_r env) \<noteq> S_OK \<longrightarrow>
        InitializeSwapChain env windowHandle w =
          (Inl (Thrown (Direct3dException_ctor
             (''Failed to retrive interface for IDXGIDevice. Error code: ''
                @ to_string (sint (fst (As_IDXGIDevice_r env)))))),
           w\<lparr>calls := calls w @
                [Call_SDL_Log ''Initializing Direct3D swapchain...'',
                 Call_As_IDXGIDevice device]\<rparr>))
     \<and> (fst (As_IDXGIDevice_r env) = S_OK \<and> fst (GetParent_IDXGIAdapter_r env) \<noteq> S_OK \<longrightarrow>
        InitializeSwapChain env windowHandle w =
          (Inl (Thrown (Direct3dException_ctor
             (''Failed to retrieve parent IDXGIAdapter from IDXGIDevice. Error code: ''
                @ to_string (sint (fst (GetParent_IDXGIAdapter_r env)))))),
           w\<lparr>calls := calls w @
                [Call_SDL_Log ''Initializing Direct3D swapchain...'',
                 Call_As_IDXGIDevice device,
                 Call_GetParent_IDXGIAdapter (snd (As_IDXGIDevice_r env))]\<rparr>))
     \<and> (fst (As_IDXGIDevice_r env) = S_OK \<and> fst (GetParent_IDXGIAdapter_r env) = S_OK
          \<and> fst (GetParent_IDXGIFactory_r env) \<noteq> S_OK \<longrightarrow>
        InitializeSwapChain env windowHandle w =
          (Inl (Thrown (Direct3dException_ctor
             (''Failed to retrieve parent IDXGIFactory from IDXGIFactory. Error code: ''
                @ to_string (sint (fst (GetParent_IDXGIFactory_r env)))))),
           w\<lparr>calls := calls w @
                [Call_SDL_Log ''Initializing Direct3D swapchain...'',
                 Call_As_IDXGIDevice device,
                 Call_GetParent_IDXGIAdapter (snd (As_IDXGIDevice_r env)),
                 Call_GetParent_IDXGIFactory (snd (GetParent_IDXGIAdapter_r env))]\<rparr>))
     \<and> (fst (As_IDXGIDevice_r env) = S_OK \<and> fst (GetParent_IDXGIAdapter_r env) = S_OK
          \<and> fst (GetParent_IDXGIFactory_r env) = S_OK \<and> fst (CreateSwapChain_r env) \<noteq> S_OK \<longrightarrow>
        InitializeSwapChain env windowHandle w =
          (Inl (Thrown (Direct3dException_ctor
             (''Failed to create swapchain. Error code: ''
                @ to_string (sint (fst (CreateSwapChain_r env)))))),
           w\<lparr>calls := calls w @
                [Call_SDL_Log ''Initializing Direct3D swapchain...'',
                 Call_As_IDXGIDevice device,
                 Call_GetParent_IDXGIAdapter (snd (As_IDXGIDevice_r env)),
                 Call_GetParent_IDXGIFactory (snd (GetParent_IDXGIAdapter_r env)),
                 Call_CreateSwapChain (snd (GetParent_IDXGIFactory_r env)) device
                   (swap_chain_desc windowHandle)]\<rparr>))"
  using assms
  by (simp add: InitializeSwapChain_def SDL_Log_def emit_def Let_def)

theorem swap_chain_fails_fast_witness:
  "direct3dDevice world_with_device = Some 3
   \<and> fst (As_IDXGIDevice_r (env_chain_fails 0)) \<noteq> S_OK
   \<and> InitializeSwapChain (env_chain_fails 0) 2 world_with_device =
       (Inl (Thrown (Direct3dException_ctor
          ''Failed to retrive interface for IDXGIDevice. Error code: -2147467262'')),
        world_with_device\<lparr>calls :=
          [Call_SDL_Log ''Initializing Direct3D swapchain...'', Call_As_IDXGIDevice 3]\<rparr>)
   \<and> fst (GetParent_IDXGIAdapter_r (env_chain_fails 1)) \<noteq> S_OK
   \<and> InitializeSwapChain (env_chain_fails 1) 2 world_with_device =
       (Inl (Thrown (Direct3dException_ctor
          ''Failed to retrieve parent IDXGIAdapter from IDXGIDevice. Error code: -2147467259'')),
        world_with_device\<lparr>calls :=
          [Call_SDL_Log ''Initializing Direct3D swapchain...'', Call_As_IDXGIDevice 3,
           Call_GetParent_IDXGIAdapter 5]\<rparr>)
   \<and> fst (GetParent_IDXGIFactory_r (env_chain_fails 2)) \<noteq> S_OK
   \<and> InitializeSwapChain (env_chain_fails 2) 2 world_with_device =
       (Inl (Thrown (Direct3dException_ctor
          ''Failed to retrieve parent IDXGIFactory from IDXGIFactory. Error code: -2147467259'')),
        world_with_device\<lparr>calls :=
          [Call_SDL_Log ''Initializing Direct3D swapchain...'', Call_As_IDXGIDevice 3,
           Call_GetParent_IDXGIAdapter 5, Call_GetParent_IDXGIFactory 6]\<rparr>)
   \<and> fst (CreateSwapChain_r (env_chain_fails 3)) \<noteq> S_OK
   \<and> InitializeSwapChain (env_chain_fails 3) 2 world_with_device =
       (Inl (Thrown (Direct3dException_ctor
          ''Failed to create swapchain. Error code: -2005270527'')),
        world_with_device\<lparr>calls :=
          [Call_SDL_Log ''Initializing Direct3D swapchain...'', Call_As_IDXGIDevice 3,
           Call_GetParent_IDXGIAdapter 5, Call_GetParent_IDXGIFactory 6,
           Call_CreateSwapChain 7 3 (swap_chain_desc 2)]\<rparr>)"
proof -
  have d: "direct3dDevice world_with_device = Some 3"
    by (simp add: world_with_device_def)
  have c: "calls world_with_device = []"
    by (simp add: world_with_device_def initial_world_def)
  have s: "to_string (- 2147467262) = ''-2147467262''"
          "to_string (- 2147467259) = ''-2147467259''"
          "to_string (- 2005270527) = ''-2005270527''"
    by (simp_all add: to_string_def nat_to_string.simps digit_char_def)
  show ?thesis
    using swap_chain_fails_fast [OF d, of "env_chain_fails 0" 2]
      swap_chain_fails_fast [OF d, of "env_chain_fails 1" 2]
      swap_chain_fails_fast [OF d, of "env_chain_fails 2" 2]
      swap_chain_fails_fast [OF d, of "env_chain_fails 3" 2]
    by (simp add: d c s env_chain_fails_def env_ok_def S_OK_def)
qed

section \<open>The frame loop\<close>

lemma frame_loop_quit: "frame_loop env True w = Some (Inr (), w)"
  by (subst frame_loop.simps) simp

text \<open>
  A property of the world that no pass through the loop body changes is the same after
  the loop as before it.
\<close>

lemma frame_loop_preserves:
  assumes run: "frame_loop env quit w = Some y"
    and body: "\<And>e q v. f (snd (frame_body e q v)) = f v"
  shows "f (snd y) = f w"
proof -
  have step: "f (snd y0) = f w0"
    if IH: "\<And>e q v z. loop e q v = Some z \<Longrightarrow> f (snd z) = f v"
      and eq: "(if q0 then Some (Inr (), w0)
                else case frame_body e0 q0 w0 of
                       (Inl e, w') \<Rightarrow> Some (Inl e, w')
                     | (Inr quit', w') \<Rightarrow> loop e0 quit' w') = Some y0"
    for loop e0 q0 w0 y0
  proof (cases q0)
    case True
    with eq have "y0 = (Inr (), w0)" by simp
    then show ?thesis by simp
  next
    case False
    obtain x w1 where b: "frame_body e0 q0 w0 = (x, w1)"
      by (cases "frame_body e0 q0 w0")
    then have w1: "f w1 = f w0"
      using body [of e0 q0 w0] by simp
    show ?thesis
    proof (cases x)
      case (Inl e)
      with eq False b have "y0 = (Inl e, w1)" by simp
      with w1 show ?thesis by simp
    next
      case (Inr q)
      with eq False b have "loop e0 q w1 = Some y0" by simp
      then have "f (snd y0) = f w1" by (rule IH)
      with w1 show ?thesis by simp
    qed
  qed
  from run show ?thesis
    by (rule frame_loop.raw_induct [where P = "\<lambda>e q v z. f (snd z) = f v", rotated])
       (rule step)
qed

lemma frame_body_quit_flag:
  "fst (frame_body env quit w) = Inr quit' \<Longrightarrow>
     quit' = poll_quit (SDL_PollEvent_r env (polls w)) quit"
  by (auto simp: frame_body_def SDL_PollEvent_def emit_def Let_def split: option.splits)

lemma frame_body_ready:
  assumes "direct3dDeviceContext w = Some c" and "direct3dSwapChain w = Some s"
  shows "frame_body env quit w =
           (Inr (poll_quit (SDL_PollEvent_r env (polls w)) quit),
            w\<lparr>calls := calls w @ frame_calls c s (mRenderTargetView w) (mDepthStencilView w),
              polls := Suc (polls w)\<rparr>)"
  using assms
  by (simp add: frame_body_def SDL_PollEvent_def emit_def Let_def frame_calls_def)

lemma poll_quit_False: "poll_quit (SDL_PollEvent_r env i) False = quit_polled env i"
  by (simp add: poll_quit_def quit_polled_def split: option.splits)

lemma quit_polled_iff:
  "quit_polled env i \<longleftrightarrow> (\<exists>e. SDL_PollEvent_r env i = Some e \<and> ev_type e = SDL_QUIT)"
  by (simp add: quit_polled_def split: option.splits)

lemma frame_body_Inr:
  assumes "frame_body env False w = (Inr q, w1)"
  shows "q = quit_polled env (polls w)" and "polls w1 = Suc (polls w)"
    and "direct3dDeviceContext w1 = direct3dDeviceContext w"
    and "direct3dSwapChain w1 = direct3dSwapChain w"
  using assms
  by (auto simp: frame_body_def SDL_PollEvent_def emit_def Let_def poll_quit_False
        split: option.splits)

lemma frame_loop_pass:
  assumes "frame_body env False w = (Inr q, w1)"
  shows "frame_loop env False w = (if q then Some (Inr (), w1) else frame_loop env False w1)"
  using assms by (subst frame_loop.simps) (simp add: frame_loop_quit)

text \<open>
  The loop ends normally only by a quit event: the last poll made yielded one, and no
  poll before it did.
\<close>

lemma frame_loop_exit:
  assumes run: "frame_loop env quit w = Some y" and ok: "fst y = Inr ()"
  shows "if quit then snd y = w
         else polls w < polls (snd y) \<and> quit_polled env (polls (snd y) - 1)
              \<and> (\<forall>i. polls w \<le> i \<and> i < polls (snd y) - 1 \<longrightarrow> \<not> quit_polled env i)"
proof -
  let ?P = "\<lambda>e q v z. fst z = Inr () \<longrightarrow>
              (if q then snd z = v
               else polls v < polls (snd z) \<and> quit_polled e (polls (snd z) - 1)
                    \<and> (\<forall>i. polls v \<le> i \<and> i < polls (snd z) - 1 \<longrightarrow> \<not> quit_polled e i))"
  have step: "?P e0 q0 w0 y0"
    if IH: "\<And>e q v z. loop e q v = Some z \<Longrightarrow> ?P e q v z"
      and eq: "(if q0 then Some (Inr (), w0)
                else case frame_body e0 q0 w0 of
                       (Inl e, w') \<Rightarrow> Some (Inl e, w')
                     | (Inr quit', w') \<Rightarrow> loop e0 quit' w') = Some y0"
    for loop e0 q0 w0 y0
  proof (cases q0)
    case True
    with eq have "y0 = (Inr (), w0)" by simp
    with True show ?thesis by simp
  next
    case False
    obtain x w1 where b: "frame_body e0 False w0 = (x, w1)"
      by (cases "frame_body e0 False w0")
    show ?thesis
    proof (cases x)
      case (Inl e)
      with eq False b have "y0 = (Inl e, w1)" by simp
      then show ?thesis by simp
    next
      case (Inr q)
      with eq False b have l: "loop e0 q w1 = Some y0" by simp
      from b Inr have q: "q = quit_polled e0 (polls w0)" and p: "polls w1 = Suc (polls w0)"
        by (simp_all add: frame_body_Inr)
      show ?thesis
      proof (intro impI)
        assume "fst y0 = Inr ()"
        with IH [OF l] have h: "if q then snd y0 = w1
            else polls w1 < polls (snd y0) \<and> quit_polled e0 (polls (snd y0) - 1)
                 \<and> (\<forall>i. polls w1 \<le> i \<and> i < polls (snd y0) - 1 \<longrightarrow> \<not> quit_polled e0 i)"
          by simp
        show "if q0 then snd y0 = w0
              else polls w0 < polls (snd y0) \<and> quit_polled e0 (polls (snd y0) - 1)
                   \<and> (\<forall>i. polls w0 \<le> i \<and> i < polls (snd y0) - 1 \<longrightarrow> \<not> quit_polled e0 i)"
        proof (cases q)
          case True
          with h q p False show ?thesis by auto
        next
          case nq: False
          with h have h1: "polls w1 < polls (snd y0)"
            and h2: "quit_polled e0 (polls (snd y0) - 1)"
            and h3: "\<And>i. polls w1 \<le> i \<Longrightarrow> i < polls (snd y0) - 1 \<Longrightarrow> \<not> quit_polled e0 i"
            by simp_all
          have "\<not> quit_polled e0 i" if "polls w0 \<le> i" and "i < polls (snd y0) - 1" for i
          proof (cases "i = polls w0")
            case True
            with q nq show ?thesis by simp
          next
            case False
            with that p have "polls w1 \<le> i" by simp
            then show ?thesis using that(2) by (rule h3)
          qed
          with h1 h2 p \<open>\<not> q0\<close> show ?thesis by simp
        qed
      qed
    qed
  qed
  have "?P env quit w y"
    using run by (rule frame_loop.raw_induct [where P = ?P, rotated]) (rule step)
  with ok show ?thesis by simp
qed

text \<open>With the device context and the swap chain in place the loop meets no null pointer.\<close>

lemma frame_loop_ready_no_error:
  assumes run: "frame_loop env quit w = Some y"
    and c: "direct3dDeviceContext w \<noteq> None" and s: "direct3dSwapChain w \<noteq> None"
  shows "fst y = Inr ()"
proof -
  let ?P = "\<lambda>(e :: env) (q :: bool) v z.
              direct3dDeviceContext v \<noteq> None \<and> direct3dSwapChain v \<noteq> None \<longrightarrow> fst z = Inr ()"
  have step: "?P e0 q0 w0 y0"
    if IH: "\<And>e q v z. loop e q v = Some z \<Longrightarrow> ?P e q v z"
      and eq: "(if q0 then Some (Inr (), w0)
                else case frame_body e0 q0 w0 of
                       (Inl e, w') \<Rightarrow> Some (Inl e, w')
                     | (Inr quit', w') \<Rightarrow> loop e0 quit' w') = Some y0"
    for loop e0 q0 w0 y0
  proof (cases q0)
    case True
    with eq have "y0 = (Inr (), w0)" by simp
    then show ?thesis by simp
  next
    case False
    show ?thesis
    proof (intro impI, elim conjE)
      assume "direct3dDeviceContext w0 \<noteq> None" and "direct3dSwapChain w0 \<noteq> None"
      then obtain c0 s0 where r: "direct3dDeviceContext w0 = Some c0" "direct3dSwapChain w0 = Some s0"
        by auto
      define w1 where "w1 = w0\<lparr>calls := calls w0 @
          frame_calls c0 s0 (mRenderTargetView w0) (mDepthStencilView w0),
          polls := Suc (polls w0)\<rparr>"
      have b: "frame_body e0 q0 w0 = (Inr (poll_quit (SDL_PollEvent_r e0 (polls w0)) q0), w1)"
        unfolding w1_def using r by (rule frame_body_ready)
      with eq False have "loop e0 (poll_quit (SDL_PollEvent_r e0 (polls w0)) q0) w1 = Some y0"
        by simp
      from IH [OF this] r show "fst y0 = Inr ()"
        by (simp add: w1_def)
    qed
  qed
  have "?P env quit w y"
    using run by (rule frame_loop.raw_induct [where P = ?P, rotated]) (rule step)
  with c s show ?thesis by simp
qed

text \<open>The loop ends with the pass whose poll yields the first quit event.\<close>

lemma frame_loop_ends_on_quit:
  assumes "direct3dDeviceContext w \<noteq> None" and "direct3dSwapChain w \<noteq> None"
    and "quit_polled env (polls w + n)" and "\<forall>i<n. \<not> quit_polled env (polls w + i)"
  shows "\<exists>w'. frame_loop env False w = Some (Inr (), w') \<and> polls w' = polls w + n + 1"
  using assms
proof (induction n arbitrary: w)
  case 0
  then obtain c0 s0 where r: "direct3dDeviceContext w = Some c0" "direct3dSwapChain w = Some s0"
    by auto
  from frame_body_ready [OF r, of env False] 0(3)
  show ?case
    by (subst frame_loop.simps) (simp add: poll_quit_False frame_loop_quit)
next
  case (Suc n)
  then obtain c0 s0 where r: "direct3dDeviceContext w = Some c0" "direct3dSwapChain w = Some s0"
    by auto
  define w1 where "w1 = w\<lparr>calls := calls w @
      frame_calls c0 s0 (mRenderTargetView w) (mDepthStencilView w), polls := Suc (polls w)\<rparr>"
  from Suc.prems(4) have nq: "\<not> quit_polled env (polls w)"
    by (auto dest: spec [of _ 0])
  have b: "frame_body env False w = (Inr False, w1)"
    using frame_body_ready [OF r, of env False] nq by (simp add: w1_def poll_quit_False)
  have l: "frame_loop env False w = frame_loop env False w1"
    using frame_loop_pass [OF b] by simp
  have "\<exists>w'. frame_loop env False w1 = Some (Inr (), w') \<and> polls w' = polls w1 + n + 1"
  proof (rule Suc.IH)
    show "direct3dDeviceContext w1 \<noteq> None" "direct3dSwapChain w1 \<noteq> None"
      using r by (simp_all add: w1_def)
    show "quit_polled env (polls w1 + n)"
      using Suc.prems(3) by (simp add: w1_def)
    show "\<forall>i<n. \<not> quit_polled env (polls w1 + i)"
    proof (intro allI impI)
      fix i assume "i < n"
      then have "Suc i < Suc n" by simp
      with Suc.prems(4) have "\<not> quit_polled env (polls w + Suc i)"
        by blast
      then show "\<not> quit_polled env (polls w1 + i)" by (simp add: w1_def)
    qed
  qed
  then show ?case
    by (simp add: l w1_def)
qed

text \<open>Without a quit event the loop never ends.\<close>

lemma frame_loop_never_quit:
  assumes c: "direct3dDeviceContext w \<noteq> None" and s: "direct3dSwapChain w \<noteq> None"
    and nq: "\<forall>i\<ge>polls w. \<not> quit_polled env i"
  shows "frame_loop env False w = None"
proof (cases "frame_loop env False w")
  case (Some y)
  then have ok: "fst y = Inr ()"
    using c s by (rule frame_loop_ready_no_error)
  from frame_loop_exit [OF Some ok]
  have "polls w < polls (snd y)" and q: "quit_polled env (polls (snd y) - 1)"
    by simp_all
  then have "polls w \<le> polls (snd y) - 1" by simp
  with nq q show ?thesis by blast
qed simp

text \<open>
  C6: seen as the two states Running and Quit, a pass through the loop body that starts
  in Running ends in Quit exactly when its poll yields an event of type \<open>SDL_QUIT\<close>;
  any other event and an empty poll leave it in Running. Nothing resets the flag, and in
  Quit the loop makes no further pass. For the loop as a whole: after a pass it ends if
  the pass polled a quit event and goes on with the next pass if not; when it ends, its
  last poll yielded a quit event and no earlier poll did; it does end with the pass that
  polls the first quit event; and it never ends when no poll yields one.
\<close>

theorem frame_loop_quit_transition:
  "(fst (frame_body env False w) = Inr quit' \<longrightarrow>
      (loop_state_of quit' = Quit) =
        (\<exists>e. SDL_PollEvent_r env (polls w) = Some e \<and> ev_type e = SDL_QUIT))
   \<and> loop_state_of (poll_quit p False) =
       (if (\<exists>e. p = Some e \<and> ev_type e = SDL_QUIT) then Quit else Running)
   \<and> poll_quit p True = True
   \<and> frame_loop env True w = Some (Inr (), w)
   \<and> (frame_body env False w = (Inr quit', w') \<longrightarrow>
        frame_loop env False w =
          (if quit' then Some (Inr (), w') else frame_loop env False w'))
   \<and> (frame_loop env False w = Some (Inr (), v) \<longrightarrow>
        polls w < polls v \<and> quit_polled env (polls v - 1)
        \<and> (\<forall>i. polls w \<le> i \<and> i < polls v - 1 \<longrightarrow> \<not> quit_polled env i))
   \<and> (direct3dDeviceContext w \<noteq> None \<and> direct3dSwapChain w \<noteq> None
        \<and> quit_polled env (polls w + n) \<and> (\<forall>i<n. \<not> quit_polled env (polls w + i)) \<longrightarrow>
        (\<exists>u. frame_loop env False w = Some (Inr (), u) \<and> polls u = polls w + n + 1))
   \<and> (direct3dDeviceContext w \<noteq> None \<and> direct3dSwapChain w \<noteq> None
        \<and> (\<forall>i\<ge>polls w. \<not> quit_polled env i) \<longrightarrow>
        frame_loop env False w = None)
   \<and> quit_polled env k = (\<exists>e. SDL_PollEvent_r env k = Some e \<and> ev_type e = SDL_QUIT)"
proof -
  have a: "loop_state_of (poll_quit p False) =
             (if (\<exists>e. p = Some e \<and> ev_type e = SDL_QUIT) then Quit else Running)" for p
    by (cases p) (simp_all add: poll_quit_def loop_state_of_def)
  have b: "poll_quit p True = True"
    by (cases p) (simp_all add: poll_quit_def)
  have c: "fst (frame_body env False w) = Inr quit' \<longrightarrow>
           (loop_state_of quit' = Quit) =
             (\<exists>e. SDL_PollEvent_r env (polls w) = Some e \<and> ev_type e = SDL_QUIT)"
  proof
    assume "fst (frame_body env False w) = Inr quit'"
    then have "quit' = poll_quit (SDL_PollEvent_r env (polls w)) False"
      by (rule frame_body_quit_flag)
    then show "(loop_state_of quit' = Quit) =
             (\<exists>e. SDL_PollEvent_r env (polls w) = Some e \<and> ev_type e = SDL_QUIT)"
      using a [of "SDL_PollEvent_r env (polls w)"] by (simp split: if_splits)
  qed
  have d: "frame_body env False w = (Inr quit', w') \<longrightarrow>
        frame_loop env False w =
          (if quit' then Some (Inr (), w') else frame_loop env False w')"
    by (intro impI) (rule frame_loop_pass)
  have e: "frame_loop env False w = Some (Inr (), v) \<longrightarrow>
        polls w < polls v \<and> quit_polled env (polls v - 1)
        \<and> (\<forall>i. polls w \<le> i \<and> i < polls v - 1 \<longrightarrow> \<not> quit_polled env i)"
  proof
    assume r: "frame_loop env False w = Some (Inr (), v)"
    from frame_loop_exit [OF r]
    show "polls w < polls v \<and> quit_polled env (polls v - 1)
        \<and> (\<forall>i. polls w \<le> i \<and> i < polls v - 1 \<longrightarrow> \<not> quit_polled env i)"
      by simp
  qed
  have f: "direct3dDeviceContext w \<noteq> None \<and> direct3dSwapChain w \<noteq> None
        \<and> quit_polled env (polls w + n) \<and> (\<forall>i<n. \<not> quit_polled env (polls w + i)) \<longrightarrow>
        (\<exists>u. frame_loop env False w = Some (Inr (), u) \<and> polls u = polls w + n + 1)"
    by (intro impI, elim conjE) (rule frame_loop_ends_on_quit)
  have g: "direct3dDeviceContext w \<noteq> None \<and> direct3dSwapChain w \<noteq> None
        \<and> (\<forall>i\<ge>polls w. \<not> quit_polled env i) \<longrightarrow>
        frame_loop env False w = None"
    by (intro impI, elim conjE) (rule frame_loop_never_quit)
  show ?thesis
    by (intro conjI a b c d e f g frame_loop_quit quit_polled_iff)
qed

theorem frame_loop_quit_transition_witness:
  "fst (frame_body env_ok False world_ready) = Inr True
   \<and> loop_state_of True = Quit
   \<and> SDL_PollEvent_r env_ok (polls world_ready) = Some quit_event
   \<and> ev_type quit_event = SDL_QUIT
   \<and> fst (frame_body env_keydown False world_ready) = Inr False
   \<and> fst (frame_body env_idle False world_ready) = Inr False
   \<and> loop_state_of False = Running
   \<and> \<not> quit_polled env_quit_third 0 \<and> \<not> quit_polled env_quit_third 1
   \<and> quit_polled env_quit_third 2
   \<and> map_option (\<lambda>y. (fst y, polls (snd y))) (frame_loop env_quit_third False world_ready)
       = Some (Inr (), 3)
   \<and> frame_loop env_keydown False world_ready = None
   \<and> frame_loop env_idle False world_ready = None"
proof -
  have r: "direct3dDeviceContext world_ready \<noteq> None" "direct3dSwapChain world_ready \<noteq> None"
    "polls world_ready = 0"
    by (simp_all add: world_ready_def initial_world_def)
  have q: "\<not> quit_polled env_quit_third 0" "\<not> quit_polled env_quit_third 1"
    "quit_polled env_quit_third 2"
    by (simp_all add: quit_polled_def env_quit_third_def env_ok_def quit_event_def SDL_QUIT_def)
  have k: "\<forall>i\<ge>polls world_ready. \<not> quit_polled env_keydown i"
    by (simp add: quit_polled_def env_keydown_def env_ok_def SDL_QUIT_def)
  have i: "\<forall>i\<ge>polls world_ready. \<not> quit_polled env_idle i"
    by (simp add: quit_polled_def env_idle_def env_ok_def)
  have t: "\<forall>i<2. \<not> quit_polled env_quit_third (polls world_ready + i)"
  proof (intro allI impI)
    fix i :: nat
    assume "i < 2"
    then have "i = 0 \<or> i = 1" by arith
    with q(1,2) show "\<not> quit_polled env_quit_third (polls world_ready + i)"
      by (auto simp: r)
  qed
  have old: "fst (frame_body env_ok False world_ready) = Inr True
   \<and> loop_state_of True = Quit
   \<and> SDL_PollEvent_r env_ok (polls world_ready) = Some quit_event
   \<and> ev_type quit_event = SDL_QUIT
   \<and> fst (frame_body env_keydown False world_ready) = Inr False
   \<and> fst (frame_body env_idle False world_ready) = Inr False
   \<and> loop_state_of False = Running"
    by (simp add: frame_body_def SDL_PollEvent_def poll_quit_def emit_def Let_def
        env_ok_def env_keydown_def env_idle_def world_ready_def initial_world_def
        quit_event_def loop_state_of_def SDL_QUIT_def)
  have n1: "frame_loop env_keydown False world_ready = None"
    using frame_loop_quit_transition [where env = env_keydown and w = world_ready] r k
    by blast
  have n2: "frame_loop env_idle False world_ready = None"
    using frame_loop_quit_transition [where env = env_idle and w = world_ready] r i
    by blast
  have q3: "quit_polled env_quit_third (polls world_ready + 2)"
    by (simp add: r quit_polled_def env_quit_third_def env_ok_def quit_event_def)
  have "\<exists>u. frame_loop env_quit_third False world_ready = Some (Inr (), u)
          \<and> polls u = polls world_ready + 2 + 1"
    using frame_loop_quit_transition [where env = env_quit_third and w = world_ready and n = 2]
      r(1,2) q3 t
    by blast
  then have n3: "map_option (\<lambda>y. (fst y, polls (snd y)))
      (frame_loop env_quit_third False world_ready) = Some (Inr (), 3)"
    by (auto simp: r)
  from old q n1 n2 n3 show ?thesis
    by (intro conjI) simp_all
qed

section \<open>The views bound to the output-merger stage\<close>

lemma frame_body_bound_views:
  "bound_views (snd (frame_body env quit w)) = bound_views w"
  by (simp add: frame_body_def SDL_PollEvent_def emit_def bound_views_def Let_def
        split: option.splits)

lemma InitializeBackBufferAndDepthStencilView_binds:
  assumes "InitializeBackBufferAndDepthStencilView env w = (Inr u, w')"
  shows "bound_views w' =
           ([Some (snd (CreateRenderTargetView_r env))],
            Some (snd (CreateDepthStencilView_r env)))"
  using assms
  by (auto simp: InitializeBackBufferAndDepthStencilView_def emit_def bound_views_def Let_def
        split: option.splits if_splits)

lemma InitializeViewport_bound_views:
  "bound_views (snd (InitializeViewport w)) = bound_views w"
  by (simp add: InitializeViewport_def emit_def bound_views_def split: option.splits)

text \<open>
  C7: when \<open>InitializeDirect3d\<close> returns normally, the output-merger stage holds exactly
  one render target view, the one made by \<open>CreateRenderTargetView\<close>, and the depth-stencil
  view made by \<open>CreateDepthStencilView\<close>. No pass through the loop body changes the
  binding, so it is in place at every clear and present, and at the end of the loop.
\<close>

theorem views_bound_after_initialization:
  assumes "InitializeDirect3d env windowHandle w = (Inr u, w1)"
  shows "bound_views w1 =
           ([Some (snd (CreateRenderTargetView_r env))],
            Some (snd (CreateDepthStencilView_r env)))
         \<and> length (om_render_targets w1) = 1
         \<and> om_depth_stencil w1 \<noteq> None
         \<and> (\<forall>quit v. bound_views v = bound_views w1 \<longrightarrow>
               bound_views (snd (frame_body env quit v)) = bound_views w1)
         \<and> (\<forall>y. frame_loop env False w1 = Some y \<longrightarrow> bound_views (snd y) = bound_views w1)"
proof -
  from assms obtain w2 w3 where
    bb: "InitializeBackBufferAndDepthStencilView env w2 = (Inr (), w3)"
    and vp: "InitializeViewport w3 = (Inr (), w1)"
    by (auto simp: InitializeDirect3d_def split: prod.splits sum.splits)
  from vp have "bound_views w1 = bound_views w3"
    using InitializeViewport_bound_views [of w3] by simp
  with bb have b: "bound_views w1 =
             ([Some (snd (CreateRenderTargetView_r env))],
              Some (snd (CreateDepthStencilView_r env)))"
    by (simp add: InitializeBackBufferAndDepthStencilView_binds)
  have l: "\<forall>y. frame_loop env False w1 = Some y \<longrightarrow> bound_views (snd y) = bound_views w1"
    using frame_loop_preserves [where f = bound_views] frame_body_bound_views by blast
  from b l show ?thesis
    by (simp add: bound_views_def frame_body_bound_views [unfolded bound_views_def])
qed

theorem views_bound_after_initialization_witness:
  "InitializeDirect3d env_ok 2 initial_world =
     (Inr (), snd (InitializeDirect3d env_ok 2 initial_world))
   \<and> bound_views (snd (InitializeDirect3d env_ok 2 initial_world)) = ([Some 10], Some 12)
   \<and> bound_views world_ready = ([Some 10], Some 12)
   \<and> bound_views (snd (frame_body env_ok False world_ready)) = ([Some 10], Some 12)"
proof -
  have i: "InitializeDirect3d env_ok 2 initial_world =
             (Inr (), snd (InitializeDirect3d env_ok 2 initial_world))"
    by (simp add: InitializeDirect3d_def InitializeDeviceAndDeviceContext_def
          InitializeSwapChain_def InitializeBackBufferAndDepthStencilView_def
          InitializeViewport_def SDL_Log_def emit_def Let_def env_ok_def initial_world_def)
  have r: "bound_views world_ready = ([Some 10], Some 12)"
    by (simp add: bound_views_def world_ready_def)
  have e: "snd (CreateRenderTargetView_r env_ok) = 10" "snd (CreateDepthStencilView_r env_ok) = 12"
    by (simp_all add: env_ok_def)
  from views_bound_after_initialization [OF i] r e i show ?thesis
    by simp
qed

section \<open>A start-up that succeeds\<close>

lemma InitializeDirect3d_succeeds:
  assumes "direct3d_succeeds env"
  shows "fst (InitializeDirect3d env h w) = Inr ()"
    and "calls (snd (InitializeDirect3d env h w)) = calls w @ direct3d_calls env h"
    and "polls (snd (InitializeDirect3d env h w)) = polls w"
    and "direct3dSwapChain (snd (InitializeDirect3d env h w)) = Some (snd (CreateSwapChain_r env))"
    and "direct3dDeviceContext (snd (InitializeDirect3d env h w)) =
           Some (snd (snd (D3D11CreateDevice_r env)))"
    and "mRenderTargetView (snd (InitializeDirect3d env h w)) =
           Some (snd (CreateRenderTargetView_r env))"
    and "mDepthStencilView (snd (InitializeDirect3d env h w)) =
           Some (snd (CreateDepthStencilView_r env))"
    and "rs_viewports (snd (InitializeDirect3d env h w)) = [viewport]"
  using assms
  by (simp_all add: direct3d_succeeds_def direct3d_calls_def InitializeDirect3d_def
        InitializeDeviceAndDeviceContext_def InitializeSwapChain_def
        InitializeBackBufferAndDepthStencilView_def InitializeViewport_def
        SDL_Log_def emit_def Let_def)

text \<open>
  When the whole start-up succeeds, \<open>main\<close> enters the frame loop in a world whose calls
  are \<open>startup_calls\<close>, and returns what the loop leaves.
\<close>

lemma main_after_init:
  assumes "init_succeeds env"
  obtains mainWindow W where
    "SDL_CreateWindow_r env = Some mainWindow"
    and "main env =
          (case frame_loop env False W of
             None \<Rightarrow> None
           | Some (Inl e, w8) \<Rightarrow> Some (Inl e, w8)
           | Some (Inr u, w8) \<Rightarrow> Some (Inr 0, emit Call_SDL_Quit w8))"
    and "calls W = startup_calls env mainWindow"
    and "polls W = 0"
    and "direct3dSwapChain W = Some (snd (CreateSwapChain_r env))"
    and "direct3dDeviceContext W = Some (snd (snd (D3D11CreateDevice_r env)))"
    and "mRenderTargetView W = Some (snd (CreateRenderTargetView_r env))"
    and "mDepthStencilView W = Some (snd (CreateDepthStencilView_r env))"
    and "rs_viewports W = [viewport]"
proof -
  from assms obtain mainWindow where
    mw: "SDL_CreateWindow_r env = Some mainWindow" and i: "SDL_Init_r env = 0"
    and d: "direct3d_succeeds env"
    by (auto simp: init_succeeds_def)
  define W6 where "W6 =
    SDL_Log ''Initializing Direct3D...''
      (emit (Call_SDL_GetWindowWMInfo mainWindow)
        (SDL_Log ''Main application window created...''
          (emit (Call_SDL_CreateWindow ''Rotating Cube'' SDL_WINDOWPOS_CENTERED SDL_WINDOWPOS_CENTERED
               640 480 0)
            (SDL_Log ''Initializing main window...''
              (SDL_Log ''SDL initialized...'' (emit (Call_SDL_Init [SDL_INIT_VIDEO, SDL_INIT_EVENTS, SDL_INIT_AUDIO]) initial_world))))))"
  define W where "W = snd (InitializeDirect3d env (wm_window env) W6)"
  have r: "InitializeDirect3d env (wm_window env) W6 = (Inr (), W)"
    using InitializeDirect3d_succeeds(1) [OF d, of "wm_window env" W6]
    by (simp add: W_def prod_eq_iff)
  have c6: "calls W6 =
              [Call_SDL_Init [SDL_INIT_VIDEO, SDL_INIT_EVENTS, SDL_INIT_AUDIO], Call_SDL_Log ''SDL initialized...'',
               Call_SDL_Log ''Initializing main window...'',
               Call_SDL_CreateWindow ''Rotating Cube'' SDL_WINDOWPOS_CENTERED SDL_WINDOWPOS_CENTERED
               640 480 0,
               Call_SDL_Log ''Main application window created...'',
               Call_SDL_GetWindowWMInfo mainWindow,
               Call_SDL_Log ''Initializing Direct3D...'']"
    and p6: "polls W6 = 0"
    by (simp_all add: W6_def SDL_Log_def emit_def initial_world_def)
  have m: "main env =
          (case frame_loop env False W of
             None \<Rightarrow> None
           | Some (Inl e, w8) \<Rightarrow> Some (Inl e, w8)
           | Some (Inr u, w8) \<Rightarrow> Some (Inr 0, emit Call_SDL_Quit w8))"
    using i mw r by (simp add: main_def Let_def W6_def)
  show thesis
  proof (rule that [OF mw m])
    show "calls W = startup_calls env mainWindow"
      by (simp add: W_def InitializeDirect3d_succeeds(2) [OF d] c6 startup_calls_def)
    show "polls W = 0"
      by (simp add: W_def InitializeDirect3d_succeeds(3) [OF d] p6)
  qed (simp_all add: W_def InitializeDirect3d_succeeds [OF d])
qed


text \<open>
  C1, as stated, fails: the loop body polls and then clears and presents in any case, so
  the pass that polls the quit event still makes one clear/present cycle. In \<open>env_ok\<close>
  every call succeeds and the first poll yields the quit event.
\<close>

theorem quit_on_first_poll_counterexample:
  "init_succeeds env_ok
   \<and> SDL_PollEvent_r env_ok 0 = Some quit_event
   \<and> ev_type quit_event = SDL_QUIT
   \<and> exit_code (main env_ok) = Some (Inr 0)
   \<and> map_option clear_present_cycles (calls_made (main env_ok)) = Some (1, 1, 1)
   \<and> map_option clear_present_cycles (calls_made (main env_ok)) \<noteq> Some (0, 0, 0)"
  by (simp add: init_succeeds_def direct3d_succeeds_def env_ok_def quit_event_def
        exit_code_def calls_made_def clear_present_cycles_def
        main_def InitializeDirect3d_def InitializeDeviceAndDeviceContext_def
        InitializeSwapChain_def InitializeBackBufferAndDepthStencilView_def
        InitializeViewport_def frame_body_def SDL_PollEvent_def poll_quit_def
        frame_loop.simps SDL_Log_def emit_def initial_world_def Let_def)

text \<open>
  C1, amended: if all initialization succeeds and the first poll of the frame loop yields
  a quit event, the program makes exactly one clear/present cycle (one clear of the render
  target, one clear of the depth-stencil view, one present), after the start-up and
  before \<open>SDL_Quit\<close>, and returns 0.
\<close>

theorem quit_on_first_poll:
  assumes "init_succeeds env" and "SDL_PollEvent_r env 0 = Some e" and "ev_type e = SDL_QUIT"
  shows "exit_code (main env) = Some (Inr 0)
         \<and> map_option clear_present_cycles (calls_made (main env)) = Some (1, 1, 1)
         \<and> (\<exists>mainWindow. SDL_CreateWindow_r env = Some mainWindow
              \<and> calls_made (main env) =
                  Some (startup_calls env mainWindow
                        @ frame_calls (snd (snd (D3D11CreateDevice_r env)))
                            (snd (CreateSwapChain_r env))
                            (Some (snd (CreateRenderTargetView_r env)))
                            (Some (snd (CreateDepthStencilView_r env)))
                        @ [Call_SDL_Quit]))"
proof -
  from assms(1) obtain mainWindow W where
    mw: "SDL_CreateWindow_r env = Some mainWindow"
    and m: "main env =
          (case frame_loop env False W of
             None \<Rightarrow> None
           | Some (Inl e, w8) \<Rightarrow> Some (Inl e, w8)
           | Some (Inr u, w8) \<Rightarrow> Some (Inr 0, emit Call_SDL_Quit w8))"
    and W: "calls W = startup_calls env mainWindow" "polls W = 0"
      "direct3dSwapChain W = Some (snd (CreateSwapChain_r env))"
      "direct3dDeviceContext W = Some (snd (snd (D3D11CreateDevice_r env)))"
      "mRenderTargetView W = Some (snd (CreateRenderTargetView_r env))"
      "mDepthStencilView W = Some (snd (CreateDepthStencilView_r env))"
    by (rule main_after_init)
  define W' where "W' = W\<lparr>calls := calls W @
      frame_calls (snd (snd (D3D11CreateDevice_r env))) (snd (CreateSwapChain_r env))
        (mRenderTargetView W) (mDepthStencilView W), polls := Suc (polls W)\<rparr>"
  have "frame_body env False W = (Inr True, W')"
    using frame_body_ready [OF W(4) W(3), of env False] assms(2,3)
    by (simp add: W'_def W(2) poll_quit_def)
  then have "frame_loop env False W = Some (Inr (), W')"
    by (subst frame_loop.simps) (simp add: frame_loop_quit)
  with m have r: "main env = Some (Inr 0, emit Call_SDL_Quit W')"
    by simp
  have c: "calls (emit Call_SDL_Quit W') =
             startup_calls env mainWindow
             @ frame_calls (snd (snd (D3D11CreateDevice_r env))) (snd (CreateSwapChain_r env))
                 (Some (snd (CreateRenderTargetView_r env)))
                 (Some (snd (CreateDepthStencilView_r env)))
             @ [Call_SDL_Quit]"
    by (simp add: W'_def emit_def W)
  have n: "clear_present_cycles (calls (emit Call_SDL_Quit W')) = (1, 1, 1)"
    unfolding c
    by (simp add: clear_present_cycles_def startup_calls_def direct3d_calls_def frame_calls_def)
  from r c n mw show ?thesis
    by (simp add: exit_code_def calls_made_def)
qed

theorem quit_on_first_poll_witness:
  "init_succeeds env_ok
   \<and> SDL_PollEvent_r env_ok 0 = Some quit_event
   \<and> ev_type quit_event = SDL_QUIT
   \<and> exit_code (main env_ok) = Some (Inr 0)
   \<and> map_option clear_present_cycles (calls_made (main env_ok)) = Some (1, 1, 1)"
proof -
  have i: "init_succeeds env_ok"
    by (simp add: init_succeeds_def direct3d_succeeds_def env_ok_def)
  have p: "SDL_PollEvent_r env_ok 0 = Some quit_event"
    by (simp add: env_ok_def)
  have q: "ev_type quit_event = SDL_QUIT"
    by (simp add: quit_event_def)
  from quit_on_first_poll [OF i p q] i p q show ?thesis
    by simp
qed

section \<open>The three sizes\<close>

lemma frame_body_sizes:
  "window_sizes (calls (snd (frame_body e q v))) = window_sizes (calls v)"
  "depth_stencil_sizes (calls (snd (frame_body e q v))) = depth_stencil_sizes (calls v)"
  "viewports_set (calls (snd (frame_body e q v))) = viewports_set (calls v)"
  by (simp_all add: frame_body_def SDL_PollEvent_def emit_def Let_def window_sizes_def
        depth_stencil_sizes_def viewports_set_def split: option.splits)

lemma startup_sizes:
  "window_sizes (startup_calls env mainWindow) = [(640, 480)]"
  "depth_stencil_sizes (startup_calls env mainWindow) = [(640, 480)]"
  "viewports_set (startup_calls env mainWindow) = [viewport]"
  by (simp_all add: startup_calls_def direct3d_calls_def window_sizes_def
        depth_stencil_sizes_def viewports_set_def depthStencilDesc_def)

lemma sizes_SDL_Quit:
  "window_sizes (tr @ [Call_SDL_Quit]) = window_sizes tr"
  "depth_stencil_sizes (tr @ [Call_SDL_Quit]) = depth_stencil_sizes tr"
  "viewports_set (tr @ [Call_SDL_Quit]) = viewports_set tr"
  by (simp_all add: window_sizes_def depth_stencil_sizes_def viewports_set_def)

text \<open>
  C8, as stated, fails: the three sizes are not mutually inconsistent, since the window
  and the depth-stencil texture have the same size.
\<close>

theorem three_sizes_counterexample:
  "map_option window_sizes (calls_made (main env_ok)) = Some [(640, 480)]
   \<and> map_option depth_stencil_sizes (calls_made (main env_ok)) = Some [(640, 480)]
   \<and> map_option window_sizes (calls_made (main env_ok))
       = map_option depth_stencil_sizes (calls_made (main env_ok))"
  by (simp add: env_ok_def quit_event_def calls_made_def window_sizes_def
        depth_stencil_sizes_def depthStencilDesc_def
        main_def InitializeDirect3d_def InitializeDeviceAndDeviceContext_def
        InitializeSwapChain_def InitializeBackBufferAndDepthStencilView_def
        InitializeViewport_def frame_body_def SDL_PollEvent_def poll_quit_def
        frame_loop.simps SDL_Log_def emit_def initial_world_def Let_def)

lemma main_enters_loop:
  assumes "init_succeeds env" and "SDL_CreateWindow_r env = Some mainWindow"
  shows "main env =
          (case frame_loop env False (world_at_loop_entry env mainWindow) of
             None \<Rightarrow> None
           | Some (Inl e, w8) \<Rightarrow> Some (Inl e, w8)
           | Some (Inr u, w8) \<Rightarrow> Some (Inr 0, emit Call_SDL_Quit w8))"
    and "calls (world_at_loop_entry env mainWindow) = startup_calls env mainWindow"
    and "rs_viewports (world_at_loop_entry env mainWindow) = [viewport]"
    and "direct3dDeviceContext (world_at_loop_entry env mainWindow) \<noteq> None"
    and "direct3dSwapChain (world_at_loop_entry env mainWindow) \<noteq> None"
    and "polls (world_at_loop_entry env mainWindow) = 0"
proof -
  from assms(1) have i: "SDL_Init_r env = 0" and d: "direct3d_succeeds env"
    by (simp_all add: init_succeeds_def)
  have r: "InitializeDirect3d env (wm_window env) (world_before_direct3d mainWindow)
             = (Inr (), world_at_loop_entry env mainWindow)"
    using InitializeDirect3d_succeeds(1) [OF d, of "wm_window env" "world_before_direct3d mainWindow"]
    by (simp add: world_at_loop_entry_def prod_eq_iff)
  show "main env =
          (case frame_loop env False (world_at_loop_entry env mainWindow) of
             None \<Rightarrow> None
           | Some (Inl e, w8) \<Rightarrow> Some (Inl e, w8)
           | Some (Inr u, w8) \<Rightarrow> Some (Inr 0, emit Call_SDL_Quit w8))"
    using i assms(2) r by (simp add: main_def Let_def world_before_direct3d_def)
  show "calls (world_at_loop_entry env mainWindow) = startup_calls env mainWindow"
    by (simp add: world_at_loop_entry_def InitializeDirect3d_succeeds(2) [OF d]
          startup_calls_def world_before_direct3d_def SDL_Log_def emit_def initial_world_def)
  show "polls (world_at_loop_entry env mainWindow) = 0"
    by (simp add: world_at_loop_entry_def InitializeDirect3d_succeeds(3) [OF d]
          world_before_direct3d_def SDL_Log_def emit_def initial_world_def)
  show "rs_viewports (world_at_loop_entry env mainWindow) = [viewport]"
    by (simp add: world_at_loop_entry_def InitializeDirect3d_succeeds(8) [OF d])
  show "direct3dDeviceContext (world_at_loop_entry env mainWindow) \<noteq> None"
    by (simp add: world_at_loop_entry_def InitializeDirect3d_succeeds(5) [OF d])
  show "direct3dSwapChain (world_at_loop_entry env mainWindow) \<noteq> None"
    by (simp add: world_at_loop_entry_def InitializeDirect3d_succeeds(4) [OF d])
qed

text \<open>
  C8, amended: the program uses three fixed sizes, two of which agree: in every run whose
  initialization succeeds, whether or not its frame loop ever ends, the window is created
  at 640 by 480, the depth-stencil texture is described as 640 by 480 (the size of the
  window), and the viewport is set to 800 by 600 at the origin with the full depth range
  0.0 to 1.0 (a size different from the other two). These are the sizes on entry to the
  frame loop, no pass through the loop body changes them, and they are the sizes of the
  whole run when it ends.
\<close>

theorem three_sizes:
  assumes "init_succeeds env" and "SDL_CreateWindow_r env = Some mainWindow"
  shows "main env =
          (case frame_loop env False (world_at_loop_entry env mainWindow) of
             None \<Rightarrow> None
           | Some (Inl e, w8) \<Rightarrow> Some (Inl e, w8)
           | Some (Inr u, w8) \<Rightarrow> Some (Inr 0, emit Call_SDL_Quit w8))
         \<and> window_sizes (calls (world_at_loop_entry env mainWindow)) = [(640, 480)]
         \<and> depth_stencil_sizes (calls (world_at_loop_entry env mainWindow)) = [(640, 480)]
         \<and> viewports_set (calls (world_at_loop_entry env mainWindow)) =
             [\<lparr>TopLeftX = 0, TopLeftY = 0, vp_Width = 800, vp_Height = 600,
               MinDepth = 0, MaxDepth = 1\<rparr>]
         \<and> rs_viewports (world_at_loop_entry env mainWindow) =
             [\<lparr>TopLeftX = 0, TopLeftY = 0, vp_Width = 800, vp_Height = 600,
               MinDepth = 0, MaxDepth = 1\<rparr>]
         \<and> window_sizes (calls (world_at_loop_entry env mainWindow))
             = depth_stencil_sizes (calls (world_at_loop_entry env mainWindow))
         \<and> map (\<lambda>v. (vp_Width v, vp_Height v))
               (viewports_set (calls (world_at_loop_entry env mainWindow)))
             \<noteq> map (\<lambda>s. (real (fst s), real (snd s)))
                 (window_sizes (calls (world_at_loop_entry env mainWindow)))
         \<and> (\<forall>q v. window_sizes (calls (snd (frame_body env q v))) = window_sizes (calls v)
                 \<and> depth_stencil_sizes (calls (snd (frame_body env q v)))
                     = depth_stencil_sizes (calls v)
                 \<and> viewports_set (calls (snd (frame_body env q v))) = viewports_set (calls v)
                 \<and> rs_viewports (snd (frame_body env q v)) = rs_viewports v)
         \<and> (\<forall>tr. calls_made (main env) = Some tr \<longrightarrow>
               window_sizes tr = [(640, 480)]
               \<and> depth_stencil_sizes tr = [(640, 480)]
               \<and> viewports_set tr =
                   [\<lparr>TopLeftX = 0, TopLeftY = 0, vp_Width = 800, vp_Height = 600,
                     MinDepth = 0, MaxDepth = 1\<rparr>])"
proof -
  let ?W = "world_at_loop_entry env mainWindow"
  note e = main_enters_loop [OF assms]
  have s: "window_sizes (calls ?W) = [(640, 480)]"
    "depth_stencil_sizes (calls ?W) = [(640, 480)]"
    "viewports_set (calls ?W) = [viewport]"
    by (simp_all add: e(2) startup_sizes)
  have b: "rs_viewports (snd (frame_body env q v)) = rs_viewports v" for q v
    by (simp add: frame_body_def SDL_PollEvent_def emit_def Let_def split: option.splits)
  have t: "window_sizes tr = [(640, 480)] \<and> depth_stencil_sizes tr = [(640, 480)]
           \<and> viewports_set tr = [viewport]"
    if tr: "calls_made (main env) = Some tr" for tr
  proof -
    from tr e(1) obtain x w8 where
      l: "frame_loop env False ?W = Some (x, w8)"
      and c: "tr = calls w8 \<or> tr = calls w8 @ [Call_SDL_Quit]"
      by (auto simp: calls_made_def emit_def split: option.splits sum.splits)
    have "window_sizes (calls w8) = window_sizes (calls ?W)"
      using frame_loop_preserves [OF l, where f = "\<lambda>w. window_sizes (calls w)"]
      by (simp add: frame_body_sizes)
    moreover have "depth_stencil_sizes (calls w8) = depth_stencil_sizes (calls ?W)"
      using frame_loop_preserves [OF l, where f = "\<lambda>w. depth_stencil_sizes (calls w)"]
      by (simp add: frame_body_sizes)
    moreover have "viewports_set (calls w8) = viewports_set (calls ?W)"
      using frame_loop_preserves [OF l, where f = "\<lambda>w. viewports_set (calls w)"]
      by (simp add: frame_body_sizes)
    ultimately show ?thesis
      using c s by (auto simp: sizes_SDL_Quit)
  qed
  from e(1) have m: "main env =
          (case frame_loop env False ?W of
             None \<Rightarrow> None
           | Some (Inl e, w8) \<Rightarrow> Some (Inl e, w8)
           | Some (Inr u, w8) \<Rightarrow> Some (Inr 0, emit Call_SDL_Quit w8))" .
  show ?thesis
    apply (intro conjI allI impI)
    apply (rule m)
    apply (simp_all add: s e(3) b frame_body_sizes t)
    apply (simp_all add: viewport_def)
    done
qed

theorem three_sizes_witness:
  "init_succeeds env_idle
   \<and> SDL_CreateWindow_r env_idle = Some 1
   \<and> main env_idle = None
   \<and> window_sizes (calls (world_at_loop_entry env_idle 1)) = [(640, 480)]
   \<and> depth_stencil_sizes (calls (world_at_loop_entry env_idle 1)) = [(640, 480)]
   \<and> viewports_set (calls (world_at_loop_entry env_idle 1)) =
       [\<lparr>TopLeftX = 0, TopLeftY = 0, vp_Width = 800, vp_Height = 600,
         MinDepth = 0, MaxDepth = 1\<rparr>]
   \<and> init_succeeds env_ok
   \<and> SDL_CreateWindow_r env_ok = Some 1
   \<and> map_option window_sizes (calls_made (main env_ok)) = Some [(640, 480)]
   \<and> map_option viewports_set (calls_made (main env_ok)) =
       Some [\<lparr>TopLeftX = 0, TopLeftY = 0, vp_Width = 800, vp_Height = 600,
              MinDepth = 0, MaxDepth = 1\<rparr>]"
proof -
  have i: "init_succeeds env_idle" and w: "SDL_CreateWindow_r env_idle = Some 1"
    by (simp_all add: init_succeeds_def direct3d_succeeds_def env_idle_def env_ok_def)
  have i': "init_succeeds env_ok" and w': "SDL_CreateWindow_r env_ok = Some 1"
    by (simp_all add: init_succeeds_def direct3d_succeeds_def env_ok_def)
  note e = main_enters_loop [OF i w]
  have "\<forall>i\<ge>polls (world_at_loop_entry env_idle 1). \<not> quit_polled env_idle i"
    by (simp add: quit_polled_def env_idle_def env_ok_def)
  with e(4,5) have "frame_loop env_idle False (world_at_loop_entry env_idle 1) = None"
    by (rule frame_loop_never_quit)
  with three_sizes [OF i w] have n: "main env_idle = None"
    by simp
  have "exit_code (main env_ok) = Some (Inr 0)"
    by (simp add: env_ok_def quit_event_def exit_code_def
          main_def InitializeDirect3d_def InitializeDeviceAndDeviceContext_def
          InitializeSwapChain_def InitializeBackBufferAndDepthStencilView_def
          InitializeViewport_def frame_body_def SDL_PollEvent_def poll_quit_def
          frame_loop.simps SDL_Log_def emit_def initial_world_def Let_def)
  then obtain tr where tr: "calls_made (main env_ok) = Some tr"
    by (auto simp: exit_code_def calls_made_def)
  from three_sizes [OF i' w'] tr have
    "window_sizes tr = [(640, 480)]"
    "viewports_set tr = [\<lparr>TopLeftX = 0, TopLeftY = 0, vp_Width = 800, vp_Height = 600,
              MinDepth = 0, MaxDepth = 1\<rparr>]"
    by blast+
  with tr three_sizes [OF i w] i w n i' w' show ?thesis
    by simp
qed

section \<open>The window handle\<close>







end
